theory Spec2Isabelle
  imports Main "HOL-Library.AList"
begin

section \<open>Rank Scorer\<close>

text \<open>
  The JavaScript being modelled (\<^verbatim>\<open>src/api/snapshot.js\<close>, identical in
  \<^verbatim>\<open>src/api/data.js\<close> and in the milestone variant of the snapshot endpoint):
  \<^verbatim>\<open>
  const TIER_ORDER = { IRON:0, BRONZE:1, SILVER:2, GOLD:3, PLATINUM:4, EMERALD:5,
                       DIAMOND:6, MASTER:7, GRANDMASTER:8, CHALLENGER:9 };
  const RANK_ORDER = { IV:0, III:1, II:2, I:3 };
  function rankScore(tier, rank, lp) {
    if (!tier) return -1;
    return (TIER_ORDER[tier] ?? -1) * 10000 + (RANK_ORDER[rank] ?? 0) * 1000 + (lp || 0);
  }
  \<close>
  A nullable string is a \<open>string option\<close> (\<open>None\<close> is \<open>null\<close>), a nullable number an
  \<open>int option\<close>. JavaScript numbers are modelled as unbounded integers: every score the
  program computes is far below \<open>2^53\<close>, where doubles are exact.
\<close>

definition TIER_ORDER :: "(string \<times> int) list" where
  "TIER_ORDER =
     [(''IRON'', 0), (''BRONZE'', 1), (''SILVER'', 2), (''GOLD'', 3), (''PLATINUM'', 4),
      (''EMERALD'', 5), (''DIAMOND'', 6), (''MASTER'', 7), (''GRANDMASTER'', 8),
      (''CHALLENGER'', 9)]"

definition RANK_ORDER :: "(string \<times> int) list" where
  "RANK_ORDER = [(''IV'', 0), (''III'', 1), (''II'', 2), (''I'', 3)]"

text \<open>\<^verbatim>\<open>TIER_ORDER[tier] ?? -1\<close>\<close>

definition tierOrd :: "string \<Rightarrow> int" where
  "tierOrd tier = (case map_of TIER_ORDER tier of None \<Rightarrow> - 1 | Some n \<Rightarrow> n)"

text \<open>\<^verbatim>\<open>RANK_ORDER[rank] ?? 0\<close>; a \<open>null\<close> rank is no key of the table.\<close>

definition rankOrd :: "string option \<Rightarrow> int" where
  "rankOrd rank =
     (case rank of
        None \<Rightarrow> 0
      | Some r \<Rightarrow> (case map_of RANK_ORDER r of None \<Rightarrow> 0 | Some n \<Rightarrow> n))"

text \<open>\<^verbatim>\<open>lp || 0\<close>: \<open>null\<close> and \<open>0\<close> both give \<open>0\<close>.\<close>

definition lpOrZero :: "int option \<Rightarrow> int" where
  "lpOrZero lp = (case lp of None \<Rightarrow> 0 | Some n \<Rightarrow> n)"

text \<open>\<^verbatim>\<open>!tier\<close> holds for \<open>null\<close> and for the empty string.\<close>

fun rankScore :: "string option \<Rightarrow> string option \<Rightarrow> int option \<Rightarrow> int" where
  "rankScore None rank lp = - 1"
| "rankScore (Some tier) rank lp =
     (if tier = [] then - 1
      else tierOrd tier * 10000 + rankOrd rank * 1000 + lpOrZero lp)"

text \<open>A valid tier is a key of \<open>TIER_ORDER\<close>.\<close>

definition validTier :: "string \<Rightarrow> bool" where
  "validTier tier = (tier \<in> set (map fst TIER_ORDER))"


section \<open>Upstream provider, store rows and program state\<close>

text \<open>
  \<^verbatim>\<open>riotGet\<close> rejects with an \<^verbatim>\<open>Error(message)\<close> on a non-2xx status, a JSON parse
  error, a transport error or a timeout; \<^verbatim>\<open>riotGetOpt\<close> resolves to \<open>null\<close> in all of
  these cases. A rejected call is \<open>Inl\<close> of the error.
\<close>

datatype error = Error string

text \<open>The JSON objects the upstream endpoints answer with (the fields the program reads).\<close>

record account =
  acc_puuid :: string
  acc_gameName :: string
  acc_tagLine :: string

record summoner =
  profileIconId :: int
  summonerLevel :: int

record league_entry =
  queueType :: string
  le_tier :: string
  le_rank :: string
  leaguePoints :: int
  le_wins :: int
  le_losses :: int

record participant =
  part_puuid :: string
  part_win :: bool
  championName :: string
  kills :: int
  deaths :: int
  assists :: int

record match_info =
  participants :: "participant list"
  gameStartTimestamp :: int

text \<open>
  One function per endpoint. \<open>active_game\<close> is the \<^verbatim>\<open>gameId\<close> of the optional
  live-game answer: \<open>None\<close> when \<^verbatim>\<open>riotGetOpt\<close> resolved to \<open>null\<close>.
\<close>

record upstream =
  account_by_riot_id :: "string \<times> string \<Rightarrow> error + account"
  summoner_by_puuid :: "string \<Rightarrow> error + summoner"
  league_entries :: "string \<Rightarrow> error + league_entry list"
  active_game :: "string \<Rightarrow> int option"
  match_ids :: "string \<Rightarrow> error + string list"
  match_detail :: "string \<Rightarrow> error + match_info"

datatype call =
    AccountCall string string
  | SummonerCall string
  | LeagueCall string
  | LiveCall string
  | MatchIdsCall string
  | MatchDetailCall string

text \<open>Rows of the tables \<^verbatim>\<open>players\<close>, \<^verbatim>\<open>rank_history\<close>, \<^verbatim>\<open>matches\<close>,
  \<^verbatim>\<open>player_matches\<close> and \<^verbatim>\<open>milestones\<close>. Timestamps are milliseconds.\<close>

record player_row =
  pr_puuid :: string
  game_name :: string
  tag_line :: string
  profile_icon_id :: int
  summoner_level :: int
  pr_tier :: "string option"
  pr_rank :: "string option"
  pr_lp :: "int option"
  pr_wins :: "int option"
  pr_losses :: "int option"
  in_game :: bool
  updated_at :: int

record history_row =
  hr_puuid :: string
  hr_tier :: "string option"
  hr_rank :: "string option"
  hr_lp :: "int option"
  hr_wins :: "int option"
  hr_losses :: "int option"
  hr_score :: int
  recorded_at :: int

record part_result =
  res_win :: bool
  res_champ :: string
  res_k :: int
  res_d :: int
  res_a :: int

record match_row =
  mr_match_id :: string
  fetched_at :: int
  mr_data :: "(string \<times> part_result) list"

record pm_row =
  pm_puuid :: string
  pm_match_id :: string
  pm_win :: bool
  pm_champ :: string
  pm_kills :: int
  pm_deaths :: int
  pm_assists :: int
  played_at :: int

datatype milestone =
    Promoted string string string int
  | Demoted string string string int
  | Surpassed string string int int int

datatype log_entry =
    LogStart
  | LogRankChanged string int int
  | LogStoredMatch string
  | WarnMatch string error
  | WarnPlayer string string error
  | LogFatal error

text \<open>An element of the \<^verbatim>\<open>results\<close> array of the milestone variant: the data of a
  resolved entity, or the placeholder \<^verbatim>\<open>{ gameName, tagLine, error: true }\<close>.\<close>

datatype result_entry =
    Resolved string "string list"
  | Placeholder string string

text \<open>
  The state the program runs on: the store's tables (keyed tables are association lists in
  insertion order, keys unique under upsert), whether the store answers (\<open>store_ok\<close>:
  the client returns \<^verbatim>\<open>{ data: null, error }\<close> instead of throwing, and the program
  never looks at the error of a write), the module variable \<^verbatim>\<open>building\<close>, the requests
  sent upstream and the console output, in order. \<open>trackedPuuids\<close> and \<open>results\<close>
  are the locals of \<^verbatim>\<open>buildSnapshot\<close> that its loop mutates.
\<close>

record state =
  store_ok :: bool
  players :: "(string \<times> player_row) list"
  rank_history :: "history_row list"
  matches :: "(string \<times> match_row) list"
  player_matches :: "((string \<times> string) \<times> pm_row) list"
  milestones :: "milestone list"
  building :: bool
  calls :: "call list"
  logs :: "log_entry list"
  trackedPuuids :: "string list"
  results :: "result_entry list"

definition request :: "call \<Rightarrow> state \<Rightarrow> state" where
  "request c s = s\<lparr>calls := calls s @ [c]\<rparr>"

definition console :: "log_entry \<Rightarrow> state \<Rightarrow> state" where
  "console l s = s\<lparr>logs := logs s @ [l]\<rparr>"

text \<open>\<^verbatim>\<open>const { data } = await supabase.from(t).select(..)\<close>: \<open>None\<close> is \<open>data: null\<close>.\<close>

definition select_rows :: "state \<Rightarrow> 'a list \<Rightarrow> 'a list option" where
  "select_rows s rows = (if store_ok s then Some rows else None)"

text \<open>\<^verbatim>\<open>data || []\<close>\<close>

definition orEmpty :: "'a list option \<Rightarrow> 'a list" where
  "orEmpty d = (case d of None \<Rightarrow> [] | Some rows \<Rightarrow> rows)"

definition upsertPlayer :: "player_row \<Rightarrow> state \<Rightarrow> state" where
  "upsertPlayer r s =
     (if store_ok s then s\<lparr>players := AList.update (pr_puuid r) r (players s)\<rparr> else s)"

definition insertHistory :: "history_row \<Rightarrow> state \<Rightarrow> state" where
  "insertHistory r s =
     (if store_ok s then s\<lparr>rank_history := rank_history s @ [r]\<rparr> else s)"

definition upsertMatch :: "match_row \<Rightarrow> state \<Rightarrow> state" where
  "upsertMatch r s =
     (if store_ok s then s\<lparr>matches := AList.update (mr_match_id r) r (matches s)\<rparr> else s)"

definition upsertPlayerMatch :: "pm_row \<Rightarrow> state \<Rightarrow> state" where
  "upsertPlayerMatch r s =
     (if store_ok s
      then s\<lparr>player_matches := AList.update (pm_puuid r, pm_match_id r) r (player_matches s)\<rparr>
      else s)"

definition insertMilestone :: "milestone \<Rightarrow> state \<Rightarrow> state" where
  "insertMilestone m s =
     (if store_ok s then s\<lparr>milestones := milestones s @ [m]\<rparr> else s)"


section \<open>The synchronisation cycle of \<^verbatim>\<open>src/api/snapshot.js\<close>\<close>

text \<open>The roster: \<^verbatim>\<open>{ name, tag }\<close> pairs.\<close>

type_synonym roster_entry = "string \<times> string"

definition PLAYERS :: "roster_entry list" where
  "PLAYERS =
     [(''DDR4 2x16GB 3600'', ''pepi''),
      (''LaDragonaTragona'', ''AWA''),
      (''lil yowi'', ''TS13''),
      (''lil aitor'', ''EUW''),
      (''comehigados'', ''EUW''),
      (''pepi'', ''346''),
      (''PapeldeCulo'', ''EUW''),
      (''FinElGit'' @ [CHR 0xCE, CHR 0x94] @ ''no'', ''695''),
      (''Xus17zgZ'', ''EUW''),
      (''Si hombre'', ''TMAWA''),
      (''Epst3inBunny'', ''meow''),
      (''her D is bigger'', ''cnc'')]"

text \<open>\<^verbatim>\<open>s || null\<close> on a string: the empty string is falsy.\<close>

definition orNull :: "string \<Rightarrow> string option" where
  "orNull x = (if x = [] then None else Some x)"

text \<open>\<^verbatim>\<open>(rankData || []).find(r => r.queueType === "RANKED_SOLO_5x5")\<close>\<close>

definition soloEntry :: "league_entry list \<Rightarrow> league_entry option" where
  "soloEntry rankData = find (\<lambda>r. queueType r = ''RANKED_SOLO_5x5'') rankData"

text \<open>
  \<^verbatim>\<open>
  const playerRow = {
    puuid: acc.puuid, game_name: acc.gameName, tag_line: acc.tagLine,
    profile_icon_id: sum.profileIconId, summoner_level: sum.summonerLevel,
    tier: solo?.tier || null, rank: solo?.rank || null, lp: solo?.leaguePoints ?? 0,
    wins: solo?.wins || 0, losses: solo?.losses || 0,
    in_game: !!(live?.gameId), updated_at: now };
  \<close>
\<close>

definition mkPlayerRow ::
  "account \<Rightarrow> summoner \<Rightarrow> league_entry option \<Rightarrow> int option \<Rightarrow> int \<Rightarrow> player_row" where
  "mkPlayerRow acc sm solo live now =
     \<lparr> pr_puuid = acc_puuid acc,
       game_name = acc_gameName acc,
       tag_line = acc_tagLine acc,
       profile_icon_id = profileIconId sm,
       summoner_level = summonerLevel sm,
       pr_tier = (case solo of None \<Rightarrow> None | Some r \<Rightarrow> orNull (le_tier r)),
       pr_rank = (case solo of None \<Rightarrow> None | Some r \<Rightarrow> orNull (le_rank r)),
       pr_lp = Some (case solo of None \<Rightarrow> 0 | Some r \<Rightarrow> leaguePoints r),
       pr_wins = Some (case solo of None \<Rightarrow> 0 | Some r \<Rightarrow> le_wins r),
       pr_losses = Some (case solo of None \<Rightarrow> 0 | Some r \<Rightarrow> le_losses r),
       in_game = (case live of None \<Rightarrow> False | Some gameId \<Rightarrow> gameId \<noteq> 0),
       updated_at = now \<rparr>"

definition rowScore :: "player_row \<Rightarrow> int" where
  "rowScore r = rankScore (pr_tier r) (pr_rank r) (pr_lp r)"

text \<open>\<^verbatim>\<open>const prevScore = prev ? rankScore(prev.tier, prev.rank, prev.lp) : -2;\<close>\<close>

definition prevScoreOf :: "player_row option \<Rightarrow> int" where
  "prevScoreOf prev = (case prev of None \<Rightarrow> - 2 | Some r \<Rightarrow> rowScore r)"

definition historyRowOf :: "player_row \<Rightarrow> int \<Rightarrow> history_row" where
  "historyRowOf playerRow now =
     \<lparr> hr_puuid = pr_puuid playerRow,
       hr_tier = pr_tier playerRow,
       hr_rank = pr_rank playerRow,
       hr_lp = pr_lp playerRow,
       hr_wins = pr_wins playerRow,
       hr_losses = pr_losses playerRow,
       hr_score = rowScore playerRow,
       recorded_at = now \<rparr>"

text \<open>
  \<^verbatim>\<open>
  const rankChanged = newScore !== prevScore;
  if (rankChanged) {
    await supabase.from("rank_history").insert({ ... score: newScore, recorded_at: now });
    console.log(`... rank changed (${prevScore} -> ${newScore})`);
  }
  \<close>
\<close>

definition writeHistory :: "player_row option \<Rightarrow> player_row \<Rightarrow> int \<Rightarrow> state \<Rightarrow> state" where
  "writeHistory prev playerRow now s =
     (let newScore = rowScore playerRow;
          prevScore = prevScoreOf prev
      in if newScore \<noteq> prevScore
         then console (LogRankChanged (game_name playerRow) prevScore newScore)
                (insertHistory (historyRowOf playerRow now) s)
         else s)"

text \<open>
  \<^verbatim>\<open>
  const prevWins   = prev?.wins   ?? playerRow.wins;
  const prevLosses = prev?.losses ?? playerRow.losses;
  const gamesPlayed = (playerRow.wins + playerRow.losses) - (prevWins + prevLosses);
  const hasNewGames = gamesPlayed > 0;
  \<close>
  The numbers of \<open>playerRow\<close> are never \<open>null\<close> (\<open>mkPlayerRow\<close> writes \<open>Some\<close>).
\<close>

definition numOr :: "int option \<Rightarrow> int \<Rightarrow> int" where
  "numOr x d = (case x of None \<Rightarrow> d | Some n \<Rightarrow> n)"

definition gamesPlayed :: "player_row option \<Rightarrow> player_row \<Rightarrow> int" where
  "gamesPlayed prev playerRow =
     (let wins = numOr (pr_wins playerRow) 0;
          losses = numOr (pr_losses playerRow) 0;
          prevWins = (case prev of None \<Rightarrow> wins | Some r \<Rightarrow> numOr (pr_wins r) wins);
          prevLosses = (case prev of None \<Rightarrow> losses | Some r \<Rightarrow> numOr (pr_losses r) losses)
      in (wins + losses) - (prevWins + prevLosses))"

definition hasNewGames :: "player_row option \<Rightarrow> player_row \<Rightarrow> bool" where
  "hasNewGames prev playerRow = (gamesPlayed prev playerRow > 0)"

text \<open>
  \<^verbatim>\<open>
  m.info.participants.reduce((obj, part) => {
    obj[part.puuid] = { win: part.win, champ: part.championName,
                        k: part.kills, d: part.deaths, a: part.assists };
    return obj; }, {})
  \<close>
\<close>

definition partResult :: "participant \<Rightarrow> part_result" where
  "partResult part =
     \<lparr> res_win = part_win part, res_champ = championName part,
       res_k = kills part, res_d = deaths part, res_a = assists part \<rparr>"

definition participantMap :: "participant list \<Rightarrow> (string \<times> part_result) list" where
  "participantMap parts =
     fold (\<lambda>part obj. AList.update (part_puuid part) (partResult part) obj) parts []"

definition pmRowOf :: "string \<Rightarrow> match_info \<Rightarrow> participant \<Rightarrow> pm_row" where
  "pmRowOf matchId m part =
     \<lparr> pm_puuid = part_puuid part, pm_match_id = matchId, pm_win = part_win part,
       pm_champ = championName part, pm_kills = kills part, pm_deaths = deaths part,
       pm_assists = assists part, played_at = gameStartTimestamp m \<rparr>"

text \<open>
  \<^verbatim>\<open>
  for (const part of m.info.participants) {
    if (!trackedPuuids.has(part.puuid)) continue;
    await supabase.from("player_matches").upsert({ ... }, { onConflict: "puuid,match_id" });
  }
  \<close>
\<close>

fun storeParticipants :: "string list \<Rightarrow> string \<Rightarrow> match_info \<Rightarrow> participant list \<Rightarrow> state \<Rightarrow> state" where
  "storeParticipants tracked matchId m [] s = s"
| "storeParticipants tracked matchId m (part # rest) s =
     storeParticipants tracked matchId m rest
       (if part_puuid part \<notin> set tracked then s
        else upsertPlayerMatch (pmRowOf matchId m part) s)"

text \<open>The body of the loop over \<^verbatim>\<open>matchIds\<close> for an id that is not in \<^verbatim>\<open>knownSet\<close>,
  with its own \<^verbatim>\<open>try\<close>/\<^verbatim>\<open>catch\<close>.\<close>

definition fetchMatch :: "upstream \<Rightarrow> int \<Rightarrow> string \<Rightarrow> state \<Rightarrow> state" where
  "fetchMatch up now matchId s =
     (let s1 = request (MatchDetailCall matchId) s
      in case match_detail up matchId of
           Inl matchErr \<Rightarrow> console (WarnMatch matchId matchErr) s1
         | Inr m \<Rightarrow>
             (let s2 = upsertMatch
                         \<lparr> mr_match_id = matchId, fetched_at = now,
                           mr_data = participantMap (participants m) \<rparr> s1;
                  s3 = storeParticipants (trackedPuuids s2) matchId m (participants m) s2
              in console (LogStoredMatch matchId) s3))"

fun matchLoop :: "upstream \<Rightarrow> int \<Rightarrow> string list \<Rightarrow> string list \<Rightarrow> state \<Rightarrow> state" where
  "matchLoop up now knownSet [] s = s"
| "matchLoop up now knownSet (matchId # rest) s =
     matchLoop up now knownSet rest
       (if matchId \<in> set knownSet then s else fetchMatch up now matchId s)"

text \<open>
  \<^verbatim>\<open>
  const { data: knownMatches } = await supabase
    .from("matches").select("match_id").in("match_id", matchIds);
  const knownSet = new Set((knownMatches || []).map(m => m.match_id));
  \<close>
\<close>

definition knownMatchIds :: "state \<Rightarrow> string list \<Rightarrow> string list" where
  "knownMatchIds s matchIds =
     orEmpty (select_rows s (filter (\<lambda>k. k \<in> set matchIds) (map fst (matches s))))"

text \<open>Step 5 of the loop body: the match list and the details of the matches not yet stored.\<close>

definition storeNewMatches :: "upstream \<Rightarrow> int \<Rightarrow> string \<Rightarrow> state \<Rightarrow> (error + unit) \<times> state" where
  "storeNewMatches up now puuid s =
     (let s1 = request (MatchIdsCall puuid) s
      in case match_ids up puuid of
           Inl err \<Rightarrow> (Inl err, s1)
         | Inr matchIds \<Rightarrow>
             (Inr (), matchLoop up now (knownMatchIds s1 matchIds) matchIds s1))"

text \<open>Steps 2 to 5, once the account is resolved.\<close>

definition resolvePlayer ::
  "upstream \<Rightarrow> (string \<Rightarrow> player_row option) \<Rightarrow> int \<Rightarrow> account \<Rightarrow> state \<Rightarrow> (error + unit) \<times> state" where
  "resolvePlayer up prevByPuuid now acc s =
     (let s1 = request (SummonerCall (acc_puuid acc)) s
      in case summoner_by_puuid up (acc_puuid acc) of
           Inl err \<Rightarrow> (Inl err, s1)
         | Inr sm \<Rightarrow>
             (let s2 = request (LeagueCall (acc_puuid acc)) s1
              in case league_entries up (acc_puuid acc) of
                   Inl err \<Rightarrow> (Inl err, s2)
                 | Inr rankData \<Rightarrow>
                     (let s3 = request (LiveCall (acc_puuid acc)) s2;
                          live = active_game up (acc_puuid acc);
                          solo = soloEntry rankData;
                          prev = prevByPuuid (acc_puuid acc);
                          playerRow = mkPlayerRow acc sm solo live now;
                          s4 = upsertPlayer playerRow s3;
                          s5 = writeHistory prev playerRow now s4
                      in if hasNewGames prev playerRow
                         then storeNewMatches up now (acc_puuid acc) s5
                         else (Inr (), s5))))"

text \<open>The \<^verbatim>\<open>try\<close> block of the loop over the roster.\<close>

definition tryPlayer ::
  "upstream \<Rightarrow> (string \<Rightarrow> player_row option) \<Rightarrow> int \<Rightarrow> roster_entry \<Rightarrow> state \<Rightarrow> (error + unit) \<times> state" where
  "tryPlayer up prevByPuuid now p s =
     (let s1 = request (AccountCall (fst p) (snd p)) s
      in case account_by_riot_id up p of
           Inl err \<Rightarrow> (Inl err, s1)
         | Inr acc \<Rightarrow>
             resolvePlayer up prevByPuuid now acc
               (s1\<lparr>trackedPuuids := List.insert (acc_puuid acc) (trackedPuuids s1)\<rparr>))"

text \<open>The loop body: \<^verbatim>\<open>catch (err) { console.warn(...) }\<close>.\<close>

definition processPlayer ::
  "upstream \<Rightarrow> (string \<Rightarrow> player_row option) \<Rightarrow> int \<Rightarrow> roster_entry \<Rightarrow> state \<Rightarrow> state" where
  "processPlayer up prevByPuuid now p s =
     (case tryPlayer up prevByPuuid now p s of
        (Inl err, s') \<Rightarrow> console (WarnPlayer (fst p) (snd p) err) s'
      | (Inr u, s') \<Rightarrow> s')"

fun playersLoop ::
  "upstream \<Rightarrow> (string \<Rightarrow> player_row option) \<Rightarrow> int \<Rightarrow> roster_entry list \<Rightarrow> state \<Rightarrow> state" where
  "playersLoop up prevByPuuid now [] s = s"
| "playersLoop up prevByPuuid now (p # rest) s =
     playersLoop up prevByPuuid now rest (processPlayer up prevByPuuid now p s)"

text \<open>
  \<^verbatim>\<open>
  const { data: prevPlayers } = await supabase.from("players").select("puuid, tier, ...");
  const prevByPuuid = {};
  for (const p of prevPlayers || []) prevByPuuid[p.puuid] = p;
  \<close>
  A later row of the same key overwrites an earlier one.
\<close>

definition loadPrevByPuuid :: "state \<Rightarrow> string \<Rightarrow> player_row option" where
  "loadPrevByPuuid s =
     map_of (rev (map (\<lambda>r. (pr_puuid r, r)) (orEmpty (select_rows s (map snd (players s))))))"

section \<open>Snapshot Reader\<close>

record recent_match =
  rm_win :: bool
  rm_champ :: string
  rm_k :: int
  rm_d :: int
  rm_a :: int

record rank_view =
  rv_queueType :: string
  rv_tier :: "string option"
  rv_rank :: "string option"
  rv_leaguePoints :: "int option"
  rv_wins :: "int option"
  rv_losses :: "int option"

record player_view =
  pv_puuid :: string
  pv_gameName :: string
  pv_tagLine :: string
  pv_profileIconId :: int
  pv_summonerLevel :: int
  pv_rankData :: "rank_view list"
  pv_inGame :: bool
  pv_recentMatches :: "recent_match list"

definition MAX_MATCHES :: nat where
  "MAX_MATCHES = 10"

definition recentMatchOf :: "pm_row \<Rightarrow> recent_match" where
  "recentMatchOf m =
     \<lparr> rm_win = pm_win m, rm_champ = pm_champ m,
       rm_k = pm_kills m, rm_d = pm_deaths m, rm_a = pm_assists m \<rparr>"

text \<open>\<^verbatim>\<open>rankData: p.tier ? [{ queueType: "RANKED_SOLO_5x5", tier: p.tier, ... }] : []\<close>\<close>

definition rankDataOf :: "player_row \<Rightarrow> rank_view list" where
  "rankDataOf p =
     (if pr_tier p = None \<or> pr_tier p = Some []
      then []
      else [\<lparr> rv_queueType = ''RANKED_SOLO_5x5'', rv_tier = pr_tier p, rv_rank = pr_rank p,
              rv_leaguePoints = pr_lp p, rv_wins = pr_wins p, rv_losses = pr_losses p \<rparr>])"

definition playerViewOf :: "player_row \<Rightarrow> pm_row list \<Rightarrow> player_view" where
  "playerViewOf p ms =
     \<lparr> pv_puuid = pr_puuid p, pv_gameName = game_name p, pv_tagLine = tag_line p,
       pv_profileIconId = profile_icon_id p, pv_summonerLevel = summoner_level p,
       pv_rankData = rankDataOf p, pv_inGame = in_game p,
       pv_recentMatches = map recentMatchOf ms \<rparr>"

text \<open>
  \<^verbatim>\<open>
  async function readPlayersFromDB(supabase) {
    const { data: players, error } = await supabase.from("players").select("*");
    if (error || !players) return [];
    const puuids = players.map(p => p.puuid);
    const { data: pMatches } = await supabase.from("player_matches").select(...)
      .in("puuid", puuids).order("played_at", { ascending: false });
    const matchesByPuuid = {};
    for (const m of pMatches || []) {
      if (!matchesByPuuid[m.puuid]) matchesByPuuid[m.puuid] = [];
      if (matchesByPuuid[m.puuid].length < MAX_MATCHES) matchesByPuuid[m.puuid].push(m);
    }
    return players.map(p => ({ ...,
      recentMatches: (matchesByPuuid[p.puuid] || []).reverse().map(m => ({ ... })) }));
  }
  \<close>
  The rows of one entity are the first \<open>MAX_MATCHES\<close> of the descending list that carry
  its key, reversed. The order the store gives to rows of equal \<open>played_at\<close> is not
  specified; here it is that of a stable sort, reversed.
\<close>

definition readPlayersFromDB :: "state \<Rightarrow> player_view list" where
  "readPlayersFromDB s =
     (case select_rows s (map snd (players s)) of
        None \<Rightarrow> []
      | Some rows \<Rightarrow>
          (let puuids = map pr_puuid rows;
               pMatches = orEmpty (select_rows s
                 (rev (sort_key played_at
                    (filter (\<lambda>m. pm_puuid m \<in> set puuids) (map snd (player_matches s))))))
           in map (\<lambda>p. playerViewOf p
                     (rev (take MAX_MATCHES (filter (\<lambda>m. pm_puuid m = pr_puuid p) pMatches))))
                rows))"


section \<open>The cycle and the Build Coordinator of \<^verbatim>\<open>src/api/snapshot.js\<close>\<close>

text \<open>
  \<^verbatim>\<open>buildSnapshot\<close> over a roster: load the previous rows, start with an empty
  \<^verbatim>\<open>trackedPuuids\<close>, run the loop, answer with \<^verbatim>\<open>readPlayersFromDB\<close>. The source
  iterates over the constant \<^verbatim>\<open>PLAYERS\<close>. The result is a sum because the caller
  handles a rejection of the promise; no statement modelled here rejects outside the
  per-entity \<^verbatim>\<open>try\<close>.
\<close>

definition buildSnapshotOf ::
  "roster_entry list \<Rightarrow> upstream \<Rightarrow> int \<Rightarrow> state \<Rightarrow> (error + player_view list) \<times> state" where
  "buildSnapshotOf roster up now s =
     (let prevByPuuid = loadPrevByPuuid s;
          s1 = playersLoop up prevByPuuid now roster (s\<lparr>trackedPuuids := []\<rparr>)
      in (Inr (readPlayersFromDB s1), s1))"

definition buildSnapshot :: "upstream \<Rightarrow> int \<Rightarrow> state \<Rightarrow> (error + player_view list) \<times> state" where
  "buildSnapshot = buildSnapshotOf PLAYERS"

record request =
  req_method :: string
  query_force :: "string option"

record env =
  RIOT_API_KEY :: "string option"
  SUPABASE_URL :: "string option"
  SUPABASE_SERVICE_KEY :: "string option"

datatype payload =
    NoBody
  | ErrorBody string
  | SnapshotBody "player_view list" int bool bool

type_synonym response = "nat \<times> payload"

text \<open>\<^verbatim>\<open>!v\<close> on an environment variable: undefined or empty.\<close>

definition unset :: "string option \<Rightarrow> bool" where
  "unset v = (v = None \<or> v = Some [])"

definition message :: "error \<Rightarrow> string" where
  "message e = (case e of Error m \<Rightarrow> m)"

text \<open>
  \<^verbatim>\<open>
  const { data: latest } = await supabase.from("players").select("updated_at")
    .order("updated_at", { ascending: false }).limit(1).single();
  \<close>
  \<open>None\<close> when the store fails or has no row.
\<close>

definition latestUpdatedAt :: "state \<Rightarrow> int option" where
  "latestUpdatedAt s =
     (case select_rows s (map (\<lambda>kv. updated_at (snd kv)) (players s)) of
        None \<Rightarrow> None
      | Some [] \<Rightarrow> None
      | Some (t # ts) \<Rightarrow> Some (fold max ts t))"

definition FRESH_MS :: int where
  "FRESH_MS = 8 * 60 * 1000"

text \<open>The freshness gate: the answer from the store when the request is not forced and the
  newest row is younger than eight minutes.\<close>

definition freshAnswer :: "int \<Rightarrow> request \<Rightarrow> state \<Rightarrow> response option" where
  "freshAnswer clock req s =
     (if query_force req = Some ''1'' then None
      else case latestUpdatedAt s of
             None \<Rightarrow> None
           | Some t \<Rightarrow>
               (if clock - t < FRESH_MS
                then Some (200, SnapshotBody (readPlayersFromDB s) t True False)
                else None))"

text \<open>
  \<^verbatim>\<open>
  building = true;
  try {
    console.log("[snapshot] Starting full Riot fetch...");
    const players = await buildSnapshot(apiKey, supabase);
    return res.status(200).json({ players, updatedAt: Date.now(), cached: false });
  } catch (e) {
    console.error("[snapshot] Fatal error:", e.message);
    const players = await readPlayersFromDB(supabase);
    if (players.length)
      return res.status(200).json({ players, updatedAt: Date.now(), cached: true, stale: true });
    return res.status(500).json({ error: e.message });
  } finally {
    building = false;
  }
  \<close>
  \<open>build\<close> is the call of \<^verbatim>\<open>buildSnapshot\<close>: it resolves (\<open>Inr\<close>) or rejects
  (\<open>Inl\<close>) and leaves a state. A missing \<^verbatim>\<open>stale\<close> is \<open>False\<close>.
\<close>

definition runCycle ::
  "(state \<Rightarrow> (error + player_view list) \<times> state) \<Rightarrow> int \<Rightarrow> state \<Rightarrow> response \<times> state" where
  "runCycle build clock s =
     (let s1 = console LogStart (s\<lparr>building := True\<rparr>)
      in case build s1 of
           (Inr views, s2) \<Rightarrow>
             ((200, SnapshotBody views clock False False), s2\<lparr>building := False\<rparr>)
         | (Inl e, s2) \<Rightarrow>
             (let s3 = console (LogFatal e) s2;
                  views = readPlayersFromDB s3
              in ((if views \<noteq> [] then (200, SnapshotBody views clock True True)
                   else (500, ErrorBody (message e))),
                  s3\<lparr>building := False\<rparr>)))"

text \<open>
  The handler. A trigger that finds \<^verbatim>\<open>building\<close> set polls until the flag clears or 25
  seconds pass and then answers from the store; other triggers run while it sleeps, which
  a sequential model does not show, so that branch answers from the state it is given.
\<close>

definition handler ::
  "(state \<Rightarrow> (error + player_view list) \<times> state) \<Rightarrow> env \<Rightarrow> int \<Rightarrow> request \<Rightarrow> state
     \<Rightarrow> response \<times> state" where
  "handler build ev clock req s =
     (if req_method req = ''OPTIONS'' then ((200, NoBody), s)
      else if unset (RIOT_API_KEY ev) then ((500, ErrorBody ''RIOT_API_KEY not set''), s)
      else if unset (SUPABASE_URL ev) \<or> unset (SUPABASE_SERVICE_KEY ev)
        then ((500, ErrorBody ''SUPABASE_URL / SUPABASE_SERVICE_KEY not set''), s)
      else case freshAnswer clock req s of
             Some r \<Rightarrow> (r, s)
           | None \<Rightarrow>
               (if building s
                then ((200, SnapshotBody (readPlayersFromDB s) clock True False), s)
                else runCycle build clock s))"

text \<open>The trigger reaches \<^verbatim>\<open>building = true\<close>: configured, not fresh, lock free.\<close>

definition entersRunning :: "env \<Rightarrow> int \<Rightarrow> request \<Rightarrow> state \<Rightarrow> bool" where
  "entersRunning ev clock req s =
     (req_method req \<noteq> ''OPTIONS'' \<and> \<not> unset (RIOT_API_KEY ev)
      \<and> \<not> unset (SUPABASE_URL ev) \<and> \<not> unset (SUPABASE_SERVICE_KEY ev)
      \<and> freshAnswer clock req s = None \<and> \<not> building s)"

section \<open>The variant of the snapshot endpoint with milestone detection
  (\<^verbatim>\<open>src/unnamed/part_001\<close>)\<close>

text \<open>
  This file defines \<^verbatim>\<open>rankScore\<close>, \<^verbatim>\<open>readPlayersFromDB\<close> and the handler as above
  (with a freshness window of 55 minutes); its \<^verbatim>\<open>buildSnapshot\<close> differs, and its
  definitions carry the suffix \<open>_ms\<close> here. It calls \<^verbatim>\<open>new Date()\<close> at each write;
  the model uses one clock value \<open>now\<close> for a cycle.
\<close>

text \<open>
  \<^verbatim>\<open>
  const prevScores = {};
  for (const p of prevPlayers || []) prevScores[p.puuid] = rankScore(p.tier, p.rank, p.lp);
  \<close>
\<close>

definition loadPrevScores :: "state \<Rightarrow> string \<Rightarrow> int option" where
  "loadPrevScores s =
     map_of (rev (map (\<lambda>r. (pr_puuid r, rowScore r))
                   (orEmpty (select_rows s (map snd (players s))))))"

text \<open>\<^verbatim>\<open>Object.keys(T).find(k => T[k] === idx)\<close>\<close>

definition keyOf :: "(string \<times> int) list \<Rightarrow> int \<Rightarrow> string option" where
  "keyOf table idx = map_option fst (find (\<lambda>kv. snd kv = idx) table)"

text \<open>
  \<^verbatim>\<open>
  function getTierName(score) {
    if (score < 0) return "Unranked";
    const tierIdx = Math.floor(score / 10000);
    const tier = Object.keys(TIER_ORDER).find(k => TIER_ORDER[k] === tierIdx) || "?";
    const rankIdx = Math.floor((score % 10000) / 1000);
    const rank = Object.keys(RANK_ORDER).find(k => RANK_ORDER[k] === rankIdx) || "";
    return `${tier} ${rank}`.trim();
  }
  \<close>
  The score is not negative where \<^verbatim>\<open>%\<close> is taken, so it is \<open>mod\<close>; no key holds a
  blank, so \<^verbatim>\<open>trim\<close> only drops the blank before an empty rank.
\<close>

definition getTierName :: "int \<Rightarrow> string" where
  "getTierName score =
     (if score < 0 then ''Unranked''
      else
        (let tier = (case keyOf TIER_ORDER (score div 10000) of None \<Rightarrow> ''?'' | Some k \<Rightarrow> k);
             rank = (case keyOf RANK_ORDER ((score mod 10000) div 1000) of
                       None \<Rightarrow> [] | Some k \<Rightarrow> k)
         in if rank = [] then tier else tier @ '' '' @ rank))"

text \<open>String concatenation with a nullable string: \<open>null\<close> prints as \<^verbatim>\<open>null\<close>.\<close>

definition jsStr :: "string option \<Rightarrow> string" where
  "jsStr x = (case x of None \<Rightarrow> ''null'' | Some v \<Rightarrow> v)"

definition toTier :: "player_row \<Rightarrow> string" where
  "toTier playerRow = jsStr (pr_tier playerRow) @ '' '' @ jsStr (pr_rank playerRow)"

text \<open>
  \<^verbatim>\<open>
  async function detectMilestones(supabase, puuid, prevScore, newScore, playerRow) {
    if (prevScore === undefined || prevScore === newScore) return;
    const prevTierScore = Math.floor((prevScore ?? -10001) / 10000);
    const newTierScore  = Math.floor(newScore / 10000);
    if (newTierScore > prevTierScore && newScore > 0) {
      await supabase.from("milestones").insert({ type: "promoted", actor_puuid: puuid,
        detail: { from_tier: getTierName(prevScore), to_tier: playerRow.tier + " " + playerRow.rank },
        occurred_at: ... });
    } else if (newTierScore < prevTierScore && prevScore > 0) {
      await supabase.from("milestones").insert({ type: "demoted", ... });
    }
  }
  \<close>
  \<open>prevScore\<close> is \<open>None\<close> for \<^verbatim>\<open>undefined\<close>; it is a value of \<^verbatim>\<open>prevScores\<close>, so
  never \<open>null\<close>, and \<^verbatim>\<open>?? -10001\<close> is not taken. \<^verbatim>\<open>Math.floor(x / 10000)\<close> on an
  integer is \<open>div\<close>, which rounds down.
\<close>

definition detectMilestones ::
  "string \<Rightarrow> int option \<Rightarrow> int \<Rightarrow> player_row \<Rightarrow> int \<Rightarrow> state \<Rightarrow> state" where
  "detectMilestones puuid prevScore newScore playerRow now s =
     (case prevScore of
        None \<Rightarrow> s
      | Some prev \<Rightarrow>
          (if prev = newScore then s
           else
             (let prevTierScore = prev div 10000;
                  newTierScore = newScore div 10000
              in if newTierScore > prevTierScore \<and> newScore > 0
                 then insertMilestone
                        (Promoted puuid (getTierName prev) (toTier playerRow) now) s
                 else if newTierScore < prevTierScore \<and> prev > 0
                 then insertMilestone
                        (Demoted puuid (getTierName prev) (toTier playerRow) now) s
                 else s)))"

text \<open>
  \<^verbatim>\<open>
  async function detectSurpassedMilestones(supabase, prevScores) {
    const { data: currentPlayers } = await supabase.from("players").select(...);
    const newScores = {};
    for (const p of currentPlayers || []) newScores[p.puuid] = rankScore(p.tier, p.rank, p.lp);
    const puuids = Object.keys(newScores);
    for (const a of puuids) {
      for (const b of puuids) {
        if (a === b) continue;
        const prevA = prevScores[a] ?? -1;  const prevB = prevScores[b] ?? -1;
        const newA  = newScores[a] ?? -1;   const newB  = newScores[b] ?? -1;
        if (prevA <= prevB && newA > newB && newA > 0) {
          await supabase.from("milestones").insert({ type: "surpassed", actor_puuid: a,
            target_puuid: b, detail: { actor_score: newA, target_score: newB }, ... });
        }
      }
    }
  }
  \<close>
\<close>

definition loadNewScores :: "state \<Rightarrow> (string \<times> int) list" where
  "loadNewScores s =
     fold (\<lambda>p obj. AList.update (pr_puuid p) (rowScore p) obj)
       (orEmpty (select_rows s (map snd (players s)))) []"

definition surpasses ::
  "(string \<Rightarrow> int option) \<Rightarrow> (string \<times> int) list \<Rightarrow> string \<Rightarrow> string \<Rightarrow> bool" where
  "surpasses prevScores newScores a b =
     (let prevA = numOr (prevScores a) (- 1);
          prevB = numOr (prevScores b) (- 1);
          newA = numOr (map_of newScores a) (- 1);
          newB = numOr (map_of newScores b) (- 1)
      in prevA \<le> prevB \<and> newA > newB \<and> newA > 0)"

definition surpassedEvents ::
  "(string \<Rightarrow> int option) \<Rightarrow> (string \<times> int) list \<Rightarrow> int \<Rightarrow> milestone list" where
  "surpassedEvents prevScores newScores now =
     (let puuids = map fst newScores
      in concat (map (\<lambda>a. concat (map (\<lambda>b.
           if a = b then []
           else if surpasses prevScores newScores a b
           then [Surpassed a b (numOr (map_of newScores a) (- 1))
                   (numOr (map_of newScores b) (- 1)) now]
           else []) puuids)) puuids))"

definition detectSurpassedMilestones :: "(string \<Rightarrow> int option) \<Rightarrow> int \<Rightarrow> state \<Rightarrow> state" where
  "detectSurpassedMilestones prevScores now s =
     fold insertMilestone (surpassedEvents prevScores (loadNewScores s) now) s"

text \<open>\<^verbatim>\<open>const trackedPuuids = results.map(r => r.puuid);\<close> A placeholder has no
  \<^verbatim>\<open>puuid\<close>, so no participant is found equal to it.\<close>

fun resultPuuids :: "result_entry list \<Rightarrow> string list" where
  "resultPuuids [] = []"
| "resultPuuids (Resolved puuid matchIds # rest) = puuid # resultPuuids rest"
| "resultPuuids (Placeholder name tag # rest) = resultPuuids rest"

definition fetchMatch_ms :: "upstream \<Rightarrow> int \<Rightarrow> string \<Rightarrow> state \<Rightarrow> state" where
  "fetchMatch_ms up now matchId s =
     (let s1 = request (MatchDetailCall matchId) s
      in case match_detail up matchId of
           Inl matchErr \<Rightarrow> console (WarnMatch matchId matchErr) s1
         | Inr m \<Rightarrow>
             (let s2 = upsertMatch
                         \<lparr> mr_match_id = matchId, fetched_at = now,
                           mr_data = participantMap (participants m) \<rparr> s1
              in storeParticipants (resultPuuids (results s2)) matchId m (participants m) s2))"

fun matchLoop_ms :: "upstream \<Rightarrow> int \<Rightarrow> string list \<Rightarrow> string list \<Rightarrow> state \<Rightarrow> state" where
  "matchLoop_ms up now knownSet [] s = s"
| "matchLoop_ms up now knownSet (matchId # rest) s =
     matchLoop_ms up now knownSet rest
       (if matchId \<in> set knownSet then s else fetchMatch_ms up now matchId s)"

text \<open>The writes of the loop body, after the five upstream calls have answered.\<close>

definition reconcile_ms ::
  "upstream \<Rightarrow> (string \<Rightarrow> int option) \<Rightarrow> int \<Rightarrow> account \<Rightarrow> summoner \<Rightarrow> league_entry list
     \<Rightarrow> int option \<Rightarrow> string list \<Rightarrow> state \<Rightarrow> state" where
  "reconcile_ms up prevScores now acc sm rankData live matchIds s =
     (let solo = soloEntry rankData;
          playerRow = mkPlayerRow acc sm solo live now;
          s1 = upsertPlayer playerRow s;
          score = rowScore playerRow;
          s2 = insertHistory (historyRowOf playerRow now) s1;
          s3 = detectMilestones (acc_puuid acc) (prevScores (acc_puuid acc)) score playerRow now s2;
          s4 = s3\<lparr>results := results s3 @ [Resolved (acc_puuid acc) matchIds]\<rparr>
      in matchLoop_ms up now (knownMatchIds s4 matchIds) matchIds s4)"

definition tryPlayer_ms ::
  "upstream \<Rightarrow> (string \<Rightarrow> int option) \<Rightarrow> int \<Rightarrow> roster_entry \<Rightarrow> state \<Rightarrow> (error + unit) \<times> state" where
  "tryPlayer_ms up prevScores now p s =
     (let s1 = request (AccountCall (fst p) (snd p)) s
      in case account_by_riot_id up p of
           Inl err \<Rightarrow> (Inl err, s1)
         | Inr acc \<Rightarrow>
     (let s2 = request (SummonerCall (acc_puuid acc)) s1
      in case summoner_by_puuid up (acc_puuid acc) of
           Inl err \<Rightarrow> (Inl err, s2)
         | Inr sm \<Rightarrow>
     (let s3 = request (LeagueCall (acc_puuid acc)) s2
      in case league_entries up (acc_puuid acc) of
           Inl err \<Rightarrow> (Inl err, s3)
         | Inr rankData \<Rightarrow>
     (let s4 = request (LiveCall (acc_puuid acc)) s3;
          live = active_game up (acc_puuid acc);
          s5 = request (MatchIdsCall (acc_puuid acc)) s4
      in case match_ids up (acc_puuid acc) of
           Inl err \<Rightarrow> (Inl err, s5)
         | Inr matchIds \<Rightarrow>
             (Inr (), reconcile_ms up prevScores now acc sm rankData live matchIds s5)))))"

text \<open>
  \<^verbatim>\<open>
  } catch (err) {
    console.warn(`[snapshot] ${p.name}#${p.tag}: ${err.message}`);
    results.push({ gameName: p.name, tagLine: p.tag, error: true });
  }
  \<close>
\<close>

definition processPlayer_ms ::
  "upstream \<Rightarrow> (string \<Rightarrow> int option) \<Rightarrow> int \<Rightarrow> roster_entry \<Rightarrow> state \<Rightarrow> state" where
  "processPlayer_ms up prevScores now p s =
     (case tryPlayer_ms up prevScores now p s of
        (Inl err, s') \<Rightarrow>
          (let s'' = console (WarnPlayer (fst p) (snd p) err) s'
           in s''\<lparr>results := results s'' @ [Placeholder (fst p) (snd p)]\<rparr>)
      | (Inr u, s') \<Rightarrow> s')"

fun playersLoop_ms ::
  "upstream \<Rightarrow> (string \<Rightarrow> int option) \<Rightarrow> int \<Rightarrow> roster_entry list \<Rightarrow> state \<Rightarrow> state" where
  "playersLoop_ms up prevScores now [] s = s"
| "playersLoop_ms up prevScores now (p # rest) s =
     playersLoop_ms up prevScores now rest (processPlayer_ms up prevScores now p s)"

definition buildSnapshotOf_ms ::
  "roster_entry list \<Rightarrow> upstream \<Rightarrow> int \<Rightarrow> state \<Rightarrow> (error + player_view list) \<times> state" where
  "buildSnapshotOf_ms roster up now s =
     (let prevScores = loadPrevScores s;
          s1 = playersLoop_ms up prevScores now roster (s\<lparr>results := []\<rparr>);
          s2 = detectSurpassedMilestones prevScores now s1
      in (Inr (readPlayersFromDB s2), s2))"

definition buildSnapshot_ms :: "upstream \<Rightarrow> int \<Rightarrow> state \<Rightarrow> (error + player_view list) \<times> state" where
  "buildSnapshot_ms = buildSnapshotOf_ms PLAYERS"

section \<open>Observations on a state\<close>

text \<open>The history rows of one entity, and the match-id list requests sent for it.\<close>

definition historyOf :: "string \<Rightarrow> state \<Rightarrow> history_row list" where
  "historyOf u s = filter (\<lambda>r. hr_puuid r = u) (rank_history s)"

definition matchIdsCallsFor :: "string \<Rightarrow> state \<Rightarrow> call list" where
  "matchIdsCallsFor u s = filter (\<lambda>c. c = MatchIdsCall u) (calls s)"

text \<open>The identity requests sent so far: one is the first statement of every loop
  iteration.\<close>

fun isAccountCall :: "call \<Rightarrow> bool" where
  "isAccountCall (AccountCall name tag) = True"
| "isAccountCall c = False"

definition accountCallsOf :: "state \<Rightarrow> call list" where
  "accountCallsOf s = filter isAccountCall (calls s)"

section \<open>Example inputs\<close>

text \<open>
  Two roster entries that resolve, the others not found. \<open>dedupUpstream\<close>: both have
  played one new game, the same match. \<open>quietUpstream\<close>: nothing has changed since the
  rows of \<open>dedupState\<close> were stored.
\<close>

definition accA :: account where
  "accA = \<lparr> acc_puuid = ''puuid-A'', acc_gameName = ''DDR4 2x16GB 3600'', acc_tagLine = ''pepi'' \<rparr>"

definition accB :: account where
  "accB = \<lparr> acc_puuid = ''puuid-B'', acc_gameName = ''LaDragonaTragona'', acc_tagLine = ''AWA'' \<rparr>"

definition sumAB :: summoner where
  "sumAB = \<lparr> profileIconId = 1, summonerLevel = 30 \<rparr>"

definition sharedMatch :: match_info where
  "sharedMatch =
     \<lparr> participants =
         [\<lparr> part_puuid = ''puuid-A'', part_win = True, championName = ''Ahri'',
            kills = 5, deaths = 1, assists = 7 \<rparr>,
          \<lparr> part_puuid = ''puuid-B'', part_win = True, championName = ''Jinx'',
            kills = 9, deaths = 2, assists = 4 \<rparr>],
       gameStartTimestamp = 1000 \<rparr>"

definition goldEntry :: "int \<Rightarrow> int \<Rightarrow> league_entry" where
  "goldEntry lp w =
     \<lparr> queueType = ''RANKED_SOLO_5x5'', le_tier = ''GOLD'', le_rank = ''IV'',
       leaguePoints = lp, le_wins = w, le_losses = 0 \<rparr>"

definition resolveAB :: "roster_entry \<Rightarrow> error + account" where
  "resolveAB p =
     (if p = (''DDR4 2x16GB 3600'', ''pepi'') then Inr accA
      else if p = (''LaDragonaTragona'', ''AWA'') then Inr accB
      else Inl (Error ''HTTP 404''))"

definition dedupUpstream :: upstream where
  "dedupUpstream =
     \<lparr> account_by_riot_id = resolveAB,
       summoner_by_puuid = (\<lambda>u. Inr sumAB),
       league_entries = (\<lambda>u. Inr [goldEntry 50 1]),
       active_game = (\<lambda>u. None),
       match_ids = (\<lambda>u. Inr [''EUW1_1'']),
       match_detail = (\<lambda>k. Inr sharedMatch) \<rparr>"

definition quietUpstream :: upstream where
  "quietUpstream =
     \<lparr> account_by_riot_id = resolveAB,
       summoner_by_puuid = (\<lambda>u. Inr sumAB),
       league_entries = (\<lambda>u. Inr [goldEntry 30 0]),
       active_game = (\<lambda>u. None),
       match_ids = (\<lambda>u. Inr []),
       match_detail = (\<lambda>k. Inl (Error ''HTTP 404'')) \<rparr>"

text \<open>The match-id list call is refused (rate limit) after a new game.\<close>

definition listDownUpstream :: upstream where
  "listDownUpstream =
     \<lparr> account_by_riot_id = resolveAB,
       summoner_by_puuid = (\<lambda>u. Inr sumAB),
       league_entries = (\<lambda>u. Inr [goldEntry 50 1]),
       active_game = (\<lambda>u. None),
       match_ids = (\<lambda>u. Inl (Error ''HTTP 429'')),
       match_detail = (\<lambda>k. Inl (Error ''HTTP 429'')) \<rparr>"

text \<open>The profile call of the first entity is refused; the second entity has played the
  shared match.\<close>

definition profileDownUpstream :: upstream where
  "profileDownUpstream =
     \<lparr> account_by_riot_id = resolveAB,
       summoner_by_puuid =
         (\<lambda>u. if u = ''puuid-A'' then Inl (Error ''HTTP 503'') else Inr sumAB),
       league_entries = (\<lambda>u. Inr [goldEntry 50 1]),
       active_game = (\<lambda>u. None),
       match_ids = (\<lambda>u. Inr [''EUW1_1'']),
       match_detail = (\<lambda>k. Inr sharedMatch) \<rparr>"

text \<open>Both entries resolve as unranked: the rank lookup answers with no entry.\<close>

definition unrankedUpstream :: upstream where
  "unrankedUpstream =
     \<lparr> account_by_riot_id = resolveAB,
       summoner_by_puuid = (\<lambda>u. Inr sumAB),
       league_entries = (\<lambda>u. Inr []),
       active_game = (\<lambda>u. None),
       match_ids = (\<lambda>u. Inr []),
       match_detail = (\<lambda>k. Inl (Error ''HTTP 404'')) \<rparr>"

definition storedRow :: "account \<Rightarrow> player_row" where
  "storedRow acc = mkPlayerRow acc sumAB (Some (goldEntry 30 0)) None 0"

definition emptyState :: state where
  "emptyState =
     \<lparr> store_ok = True, players = [], rank_history = [], matches = [],
       player_matches = [], milestones = [], building = False, calls = [], logs = [],
       trackedPuuids = [], results = [] \<rparr>"

definition dedupState :: state where
  "dedupState =
     emptyState\<lparr>players := [(''puuid-A'', storedRow accA), (''puuid-B'', storedRow accB)]\<rparr>"

text \<open>A configured environment, a forced trigger, a cycle that rejects, and a store that holds
  two rows but does not answer.\<close>

definition exampleEnv :: env where
  "exampleEnv =
     \<lparr> RIOT_API_KEY = Some ''key'', SUPABASE_URL = Some ''url'',
       SUPABASE_SERVICE_KEY = Some ''service'' \<rparr>"

definition forcedReq :: request where
  "forcedReq = \<lparr> req_method = ''GET'', query_force = Some ''1'' \<rparr>"

definition failingBuild :: "state \<Rightarrow> (error + player_view list) \<times> state" where
  "failingBuild s = (Inl (Error ''fetch failed''), s)"

definition downState :: state where
  "downState = dedupState\<lparr>store_ok := False\<rparr>"

text \<open>Two entities stored as unranked; then the first is placed in Iron IV with 0 points.\<close>

definition ironEntry :: league_entry where
  "ironEntry =
     \<lparr> queueType = ''RANKED_SOLO_5x5'', le_tier = ''IRON'', le_rank = ''IV'',
       leaguePoints = 0, le_wins = 3, le_losses = 2 \<rparr>"

definition unrankedState :: state where
  "unrankedState =
     emptyState\<lparr>players := [(''puuid-A'', mkPlayerRow accA sumAB None None 0),
                              (''puuid-B'', mkPlayerRow accB sumAB None None 0)]\<rparr>"

definition placedState :: state where
  "placedState =
     emptyState\<lparr>players := [(''puuid-A'', mkPlayerRow accA sumAB (Some ironEntry) None 5000),
                              (''puuid-B'', mkPlayerRow accB sumAB None None 5000)]\<rparr>"

definition placementUpstream :: upstream where
  "placementUpstream =
     \<lparr> account_by_riot_id = resolveAB,
       summoner_by_puuid = (\<lambda>u. Inr sumAB),
       league_entries = (\<lambda>u. if u = ''puuid-A'' then Inr [ironEntry] else Inr []),
       active_game = (\<lambda>u. None),
       match_ids = (\<lambda>u. Inr []),
       match_detail = (\<lambda>k. Inl (Error ''HTTP 404'')) \<rparr>"

text \<open>The first required call that fails among identity, profile and rank lookup: the calls
  of \<^verbatim>\<open>src/api/snapshot.js\<close> that come before its first write.\<close>

definition lookupFailure :: "upstream \<Rightarrow> roster_entry \<Rightarrow> error option" where
  "lookupFailure up p =
     (case account_by_riot_id up p of
        Inl e \<Rightarrow> Some e
      | Inr acc \<Rightarrow>
          (case summoner_by_puuid up (acc_puuid acc) of
             Inl e \<Rightarrow> Some e
           | Inr sm \<Rightarrow>
               (case league_entries up (acc_puuid acc) of
                  Inl e \<Rightarrow> Some e
                | Inr rankData \<Rightarrow> None)))"

section \<open>Properties of the Rank Scorer\<close>

lemma tierOrd_valid: "validTier t \<Longrightarrow> 0 \<le> tierOrd t \<and> tierOrd t \<le> 9 \<and> t \<noteq> []"
  by (auto simp: validTier_def TIER_ORDER_def tierOrd_def)

lemma rankOrd_range: "0 \<le> rankOrd d \<and> rankOrd d \<le> 3"
  by (auto simp: rankOrd_def RANK_ORDER_def split: option.splits)

lemma rankScore_ranked:
  "validTier t \<Longrightarrow>
   rankScore (Some t) d (Some p) = tierOrd t * 10000 + rankOrd d * 1000 + p"
  using tierOrd_valid [of t] by (simp add: lpOrZero_def)

lemma rankScore_ranked_nonneg:
  assumes "validTier t" and "0 \<le> p"
  shows "0 \<le> rankScore (Some t) d (Some p)"
proof -
  have "0 \<le> tierOrd t" using tierOrd_valid [OF assms(1)] by simp
  moreover have "0 \<le> rankOrd d" using rankOrd_range [of d] by simp
  ultimately show ?thesis
    unfolding rankScore_ranked [OF assms(1)] using assms(2) by simp
qed

text \<open>
  Claim C1, as the spec states it, lets the points be any integer \<open>\<ge> 0\<close>. The scales
  are fixed (1000 per division, 10000 per tier), so enough points in a lower division or
  tier reach the score of the next one: Gold IV with 1000 points scores what Gold III with
  0 points scores, and Gold I with 7000 points scores what Platinum IV with 0 points scores.
\<close>

theorem rankScore_points_overflow_counterexample:
  "validTier ''GOLD'' \<and> validTier ''PLATINUM''
   \<and> rankOrd (Some ''IV'') < rankOrd (Some ''III'')
   \<and> tierOrd ''GOLD'' < tierOrd ''PLATINUM''
   \<and> \<not> rankScore (Some ''GOLD'') (Some ''IV'') (Some 1000)
        < rankScore (Some ''GOLD'') (Some ''III'') (Some 0)
   \<and> \<not> rankScore (Some ''GOLD'') (Some ''I'') (Some 7000)
        < rankScore (Some ''PLATINUM'') (Some ''IV'') (Some 0)"
  by (simp add: validTier_def TIER_ORDER_def RANK_ORDER_def tierOrd_def rankOrd_def
      lpOrZero_def)

text \<open>
  Claim C1, amended: for valid tiers and points \<open>\<ge> 0\<close>, a higher tier outranks a lower
  one whenever the lower entry has fewer than 7000 points, within one tier a higher division
  outranks a lower one whenever the lower entry has fewer than 1000 points, within one tier
  and division more points score strictly higher, and the unranked sentinel \<open>-1\<close> is
  strictly below every ranked score.
\<close>

theorem rankScore_lexicographic:
  assumes "validTier t1" and "validTier t2" and "0 \<le> p1" and "0 \<le> p2"
  shows "(tierOrd t1 < tierOrd t2 \<and> p1 < 7000 \<longrightarrow>
            rankScore (Some t1) d1 (Some p1) < rankScore (Some t2) d2 (Some p2))
       \<and> (tierOrd t1 = tierOrd t2 \<and> rankOrd d1 < rankOrd d2 \<and> p1 < 1000 \<longrightarrow>
            rankScore (Some t1) d1 (Some p1) < rankScore (Some t2) d2 (Some p2))
       \<and> (tierOrd t1 = tierOrd t2 \<and> rankOrd d1 = rankOrd d2 \<and> p1 < p2 \<longrightarrow>
            rankScore (Some t1) d1 (Some p1) < rankScore (Some t2) d2 (Some p2))
       \<and> rankScore None d0 p0 = - 1
       \<and> rankScore None d0 p0 < rankScore (Some t1) d1 (Some p1)"
proof -
  have d1: "0 \<le> rankOrd d1 \<and> rankOrd d1 \<le> 3" by (rule rankOrd_range)
  have d2: "0 \<le> rankOrd d2 \<and> rankOrd d2 \<le> 3" by (rule rankOrd_range)
  have s1: "rankScore (Some t1) d1 (Some p1) = tierOrd t1 * 10000 + rankOrd d1 * 1000 + p1"
    by (rule rankScore_ranked [OF assms(1)])
  have s2: "rankScore (Some t2) d2 (Some p2) = tierOrd t2 * 10000 + rankOrd d2 * 1000 + p2"
    by (rule rankScore_ranked [OF assms(2)])
  have tier: "tierOrd t1 < tierOrd t2 \<and> p1 < 7000 \<longrightarrow>
      rankScore (Some t1) d1 (Some p1) < rankScore (Some t2) d2 (Some p2)"
    unfolding s1 s2 using d1 d2 assms(3,4) by arith
  have division: "tierOrd t1 = tierOrd t2 \<and> rankOrd d1 < rankOrd d2 \<and> p1 < 1000 \<longrightarrow>
      rankScore (Some t1) d1 (Some p1) < rankScore (Some t2) d2 (Some p2)"
    unfolding s1 s2 using assms(3,4) by arith
  have points: "tierOrd t1 = tierOrd t2 \<and> rankOrd d1 = rankOrd d2 \<and> p1 < p2 \<longrightarrow>
      rankScore (Some t1) d1 (Some p1) < rankScore (Some t2) d2 (Some p2)"
    unfolding s1 s2 by arith
  have sentinel: "rankScore None d0 p0 < rankScore (Some t1) d1 (Some p1)"
    using rankScore_ranked_nonneg [OF assms(1,3), of d1] by simp
  show ?thesis using tier division points sentinel by simp
qed

theorem rankScore_lexicographic_witness:
  "rankScore (Some ''GOLD'') (Some ''I'') (Some 100)
     < rankScore (Some ''PLATINUM'') (Some ''IV'') (Some 0)
   \<and> rankScore (Some ''GOLD'') (Some ''IV'') (Some 100)
     < rankScore (Some ''GOLD'') (Some ''III'') (Some 0)
   \<and> rankScore (Some ''GOLD'') (Some ''IV'') (Some 0)
     < rankScore (Some ''GOLD'') (Some ''IV'') (Some 1)
   \<and> rankScore None None None < rankScore (Some ''IRON'') (Some ''IV'') (Some 0)"
proof -
  have g: "validTier ''GOLD''" and p: "validTier ''PLATINUM''" and i: "validTier ''IRON''"
    by (simp_all add: validTier_def TIER_ORDER_def)
  have tg: "tierOrd ''GOLD'' = 3" and tp: "tierOrd ''PLATINUM'' = 4"
    by (simp_all add: tierOrd_def TIER_ORDER_def)
  have r1: "rankOrd (Some ''I'') = 3" and r3: "rankOrd (Some ''III'') = 1"
    and r4: "rankOrd (Some ''IV'') = 0"
    by (simp_all add: rankOrd_def RANK_ORDER_def)
  have a: "rankScore (Some ''GOLD'') (Some ''I'') (Some 100)
      < rankScore (Some ''PLATINUM'') (Some ''IV'') (Some 0)"
    using rankScore_lexicographic [OF g p, of 100 0 "Some ''I''" "Some ''IV''"] tg tp
    by simp
  have b: "rankScore (Some ''GOLD'') (Some ''IV'') (Some 100)
      < rankScore (Some ''GOLD'') (Some ''III'') (Some 0)"
    using rankScore_lexicographic [OF g g, of 100 0 "Some ''IV''" "Some ''III''"] r3 r4
    by simp
  have c: "rankScore (Some ''GOLD'') (Some ''IV'') (Some 0)
      < rankScore (Some ''GOLD'') (Some ''IV'') (Some 1)"
    using rankScore_lexicographic [OF g g, of 0 1 "Some ''IV''" "Some ''IV''"]
    by simp
  have d: "rankScore None None None < rankScore (Some ''IRON'') (Some ''IV'') (Some 0)"
    using rankScore_lexicographic [OF i i, of 0 0 "Some ''IV''" "Some ''IV''" None None]
    by simp
  show ?thesis using a b c d by simp
qed


section \<open>What each store operation and the match loop leave unchanged\<close>

lemma request_frame [simp]:
  "store_ok (request c s) = store_ok s"
  "players (request c s) = players s"
  "rank_history (request c s) = rank_history s"
  "matches (request c s) = matches s"
  "player_matches (request c s) = player_matches s"
  "milestones (request c s) = milestones s"
  "building (request c s) = building s"
  "logs (request c s) = logs s"
  "trackedPuuids (request c s) = trackedPuuids s"
  "results (request c s) = results s"
  "calls (request c s) = calls s @ [c]"
  by (simp_all add: request_def)

lemma console_frame [simp]:
  "store_ok (console l s) = store_ok s"
  "players (console l s) = players s"
  "rank_history (console l s) = rank_history s"
  "matches (console l s) = matches s"
  "player_matches (console l s) = player_matches s"
  "milestones (console l s) = milestones s"
  "building (console l s) = building s"
  "calls (console l s) = calls s"
  "trackedPuuids (console l s) = trackedPuuids s"
  "results (console l s) = results s"
  "logs (console l s) = logs s @ [l]"
  by (simp_all add: console_def)

lemma upsertPlayer_frame [simp]:
  "store_ok (upsertPlayer r s) = store_ok s"
  "rank_history (upsertPlayer r s) = rank_history s"
  "matches (upsertPlayer r s) = matches s"
  "player_matches (upsertPlayer r s) = player_matches s"
  "milestones (upsertPlayer r s) = milestones s"
  "building (upsertPlayer r s) = building s"
  "calls (upsertPlayer r s) = calls s"
  "logs (upsertPlayer r s) = logs s"
  "trackedPuuids (upsertPlayer r s) = trackedPuuids s"
  "results (upsertPlayer r s) = results s"
  by (simp_all add: upsertPlayer_def)

lemma insertHistory_frame [simp]:
  "store_ok (insertHistory r s) = store_ok s"
  "players (insertHistory r s) = players s"
  "matches (insertHistory r s) = matches s"
  "player_matches (insertHistory r s) = player_matches s"
  "milestones (insertHistory r s) = milestones s"
  "building (insertHistory r s) = building s"
  "calls (insertHistory r s) = calls s"
  "logs (insertHistory r s) = logs s"
  "trackedPuuids (insertHistory r s) = trackedPuuids s"
  "results (insertHistory r s) = results s"
  "rank_history (insertHistory r s) = rank_history s @ (if store_ok s then [r] else [])"
  by (simp_all add: insertHistory_def)

lemma upsertMatch_frame [simp]:
  "store_ok (upsertMatch r s) = store_ok s"
  "players (upsertMatch r s) = players s"
  "rank_history (upsertMatch r s) = rank_history s"
  "player_matches (upsertMatch r s) = player_matches s"
  "milestones (upsertMatch r s) = milestones s"
  "building (upsertMatch r s) = building s"
  "calls (upsertMatch r s) = calls s"
  "logs (upsertMatch r s) = logs s"
  "trackedPuuids (upsertMatch r s) = trackedPuuids s"
  "results (upsertMatch r s) = results s"
  by (simp_all add: upsertMatch_def)

lemma upsertPlayerMatch_frame [simp]:
  "store_ok (upsertPlayerMatch r s) = store_ok s"
  "players (upsertPlayerMatch r s) = players s"
  "rank_history (upsertPlayerMatch r s) = rank_history s"
  "matches (upsertPlayerMatch r s) = matches s"
  "milestones (upsertPlayerMatch r s) = milestones s"
  "building (upsertPlayerMatch r s) = building s"
  "calls (upsertPlayerMatch r s) = calls s"
  "logs (upsertPlayerMatch r s) = logs s"
  "trackedPuuids (upsertPlayerMatch r s) = trackedPuuids s"
  "results (upsertPlayerMatch r s) = results s"
  by (simp_all add: upsertPlayerMatch_def)

lemma insertMilestone_frame [simp]:
  "store_ok (insertMilestone m s) = store_ok s"
  "players (insertMilestone m s) = players s"
  "rank_history (insertMilestone m s) = rank_history s"
  "matches (insertMilestone m s) = matches s"
  "player_matches (insertMilestone m s) = player_matches s"
  "building (insertMilestone m s) = building s"
  "calls (insertMilestone m s) = calls s"
  "logs (insertMilestone m s) = logs s"
  "trackedPuuids (insertMilestone m s) = trackedPuuids s"
  "results (insertMilestone m s) = results s"
  "milestones (insertMilestone m s) = milestones s @ (if store_ok s then [m] else [])"
  by (simp_all add: insertMilestone_def)

lemma storeParticipants_frame [simp]:
  "store_ok (storeParticipants tr k m ps s) = store_ok s"
  "players (storeParticipants tr k m ps s) = players s"
  "rank_history (storeParticipants tr k m ps s) = rank_history s"
  "matches (storeParticipants tr k m ps s) = matches s"
  "milestones (storeParticipants tr k m ps s) = milestones s"
  "building (storeParticipants tr k m ps s) = building s"
  "calls (storeParticipants tr k m ps s) = calls s"
  "logs (storeParticipants tr k m ps s) = logs s"
  "trackedPuuids (storeParticipants tr k m ps s) = trackedPuuids s"
  "results (storeParticipants tr k m ps s) = results s"
  by (induction ps arbitrary: s; simp)+

lemma fetchMatch_frame [simp]:
  "store_ok (fetchMatch up now k s) = store_ok s"
  "players (fetchMatch up now k s) = players s"
  "rank_history (fetchMatch up now k s) = rank_history s"
  "milestones (fetchMatch up now k s) = milestones s"
  "building (fetchMatch up now k s) = building s"
  "trackedPuuids (fetchMatch up now k s) = trackedPuuids s"
  "results (fetchMatch up now k s) = results s"
  "calls (fetchMatch up now k s) = calls s @ [MatchDetailCall k]"
  by (simp_all add: fetchMatch_def Let_def split: sum.splits)

lemma matchLoop_frame [simp]:
  "store_ok (matchLoop up now known ks s) = store_ok s"
  "players (matchLoop up now known ks s) = players s"
  "rank_history (matchLoop up now known ks s) = rank_history s"
  "milestones (matchLoop up now known ks s) = milestones s"
  "building (matchLoop up now known ks s) = building s"
  "trackedPuuids (matchLoop up now known ks s) = trackedPuuids s"
  "results (matchLoop up now known ks s) = results s"
  by (induction ks arbitrary: s; simp)+

lemma matchLoop_calls:
  "calls (matchLoop up now known ks s)
     = calls s @ map MatchDetailCall (filter (\<lambda>k. k \<notin> set known) ks)"
  by (induction ks arbitrary: s) simp_all


section \<open>One iteration of the loop over the roster\<close>

lemma knownMatchIds_frame [simp]:
  "knownMatchIds (request c s) ks = knownMatchIds s ks"
  "knownMatchIds (console l s) ks = knownMatchIds s ks"
  by (simp_all add: knownMatchIds_def select_rows_def)

lemma writeHistory_frame [simp]:
  "store_ok (writeHistory prev row now s) = store_ok s"
  "players (writeHistory prev row now s) = players s"
  "matches (writeHistory prev row now s) = matches s"
  "player_matches (writeHistory prev row now s) = player_matches s"
  "milestones (writeHistory prev row now s) = milestones s"
  "building (writeHistory prev row now s) = building s"
  "calls (writeHistory prev row now s) = calls s"
  "trackedPuuids (writeHistory prev row now s) = trackedPuuids s"
  "results (writeHistory prev row now s) = results s"
  by (simp_all add: writeHistory_def Let_def)

lemma writeHistory_history:
  "rank_history (writeHistory prev row now s)
     = rank_history s @ (if store_ok s \<and> rowScore row \<noteq> prevScoreOf prev
                         then [historyRowOf row now] else [])"
  by (simp add: writeHistory_def Let_def)

lemma storeNewMatches_frame [simp]:
  "store_ok (snd (storeNewMatches up now u s)) = store_ok s"
  "players (snd (storeNewMatches up now u s)) = players s"
  "rank_history (snd (storeNewMatches up now u s)) = rank_history s"
  "milestones (snd (storeNewMatches up now u s)) = milestones s"
  "building (snd (storeNewMatches up now u s)) = building s"
  "trackedPuuids (snd (storeNewMatches up now u s)) = trackedPuuids s"
  "results (snd (storeNewMatches up now u s)) = results s"
  by (simp_all add: storeNewMatches_def Let_def split: sum.splits)

lemma storeNewMatches_calls:
  "matchIdsCallsFor v (snd (storeNewMatches up now u s))
     = matchIdsCallsFor v s @ (if v = u then [MatchIdsCall u] else [])"
  by (auto simp: storeNewMatches_def Let_def matchIdsCallsFor_def matchLoop_calls
        filter_empty_conv split: sum.splits)

text \<open>Steps 2 to 5: the history row and the match-id list request they add.\<close>

lemma resolvePlayer_store_ok [simp]:
  "store_ok (snd (resolvePlayer up prev now acc s)) = store_ok s"
  by (simp add: resolvePlayer_def Let_def split: sum.splits)

lemma resolvePlayer_history:
  "rank_history (snd (resolvePlayer up prev now acc s))
     = rank_history s @
       (case summoner_by_puuid up (acc_puuid acc) of
          Inl e \<Rightarrow> []
        | Inr sm \<Rightarrow>
            (case league_entries up (acc_puuid acc) of
               Inl e \<Rightarrow> []
             | Inr rankData \<Rightarrow>
                 (let row = mkPlayerRow acc sm (soloEntry rankData)
                              (active_game up (acc_puuid acc)) now
                  in if store_ok s \<and> rowScore row \<noteq> prevScoreOf (prev (acc_puuid acc))
                     then [historyRowOf row now] else [])))"
  by (simp add: resolvePlayer_def Let_def writeHistory_history split: sum.splits)

lemma matchIdsCallsFor_frame [simp]:
  "matchIdsCallsFor v (request c s)
     = matchIdsCallsFor v s @ (if c = MatchIdsCall v then [c] else [])"
  "matchIdsCallsFor v (console l s) = matchIdsCallsFor v s"
  "matchIdsCallsFor v (upsertPlayer row s) = matchIdsCallsFor v s"
  "matchIdsCallsFor v (writeHistory prev row now s) = matchIdsCallsFor v s"
  "matchIdsCallsFor v (s\<lparr>trackedPuuids := tr\<rparr>) = matchIdsCallsFor v s"
  by (simp_all add: matchIdsCallsFor_def)

lemma resolvePlayer_calls:
  "matchIdsCallsFor v (snd (resolvePlayer up prev now acc s))
     = matchIdsCallsFor v s @
       (case summoner_by_puuid up (acc_puuid acc) of
          Inl e \<Rightarrow> []
        | Inr sm \<Rightarrow>
            (case league_entries up (acc_puuid acc) of
               Inl e \<Rightarrow> []
             | Inr rankData \<Rightarrow>
                 (if v = acc_puuid acc \<and>
                     hasNewGames (prev (acc_puuid acc))
                       (mkPlayerRow acc sm (soloEntry rankData)
                          (active_game up (acc_puuid acc)) now)
                  then [MatchIdsCall v] else [])))"
  by (simp add: resolvePlayer_def Let_def storeNewMatches_calls split: sum.splits)

lemma tryPlayer_store_ok [simp]:
  "store_ok (snd (tryPlayer up prev now p s)) = store_ok s"
  by (simp add: tryPlayer_def Let_def split: sum.splits)

lemma processPlayer_store_ok [simp]:
  "store_ok (processPlayer up prev now p s) = store_ok s"
proof -
  have "store_ok (snd (tryPlayer up prev now p s)) = store_ok s" by simp
  then show ?thesis
    by (cases "tryPlayer up prev now p s") (auto simp: processPlayer_def split: sum.splits)
qed

lemma playersLoop_store_ok [simp]:
  "store_ok (playersLoop up prev now roster s) = store_ok s"
  by (induction roster arbitrary: s) simp_all

lemma processPlayer_snd:
  "rank_history (processPlayer up prev now p s) = rank_history (snd (tryPlayer up prev now p s))"
  "calls (processPlayer up prev now p s) = calls (snd (tryPlayer up prev now p s))"
  "players (processPlayer up prev now p s) = players (snd (tryPlayer up prev now p s))"
  "matches (processPlayer up prev now p s) = matches (snd (tryPlayer up prev now p s))"
  "player_matches (processPlayer up prev now p s) = player_matches (snd (tryPlayer up prev now p s))"
  "milestones (processPlayer up prev now p s) = milestones (snd (tryPlayer up prev now p s))"
  by (cases "tryPlayer up prev now p s"; auto simp: processPlayer_def split: sum.splits)+

text \<open>What one loop iteration adds to the history and to the match-id list requests.\<close>

lemma processPlayer_history_resolved:
  assumes "account_by_riot_id up p = Inr acc"
    and "summoner_by_puuid up (acc_puuid acc) = Inr sm"
    and "league_entries up (acc_puuid acc) = Inr rankData"
  shows "rank_history (processPlayer up prev now p s)
     = rank_history s @
       (let row = mkPlayerRow acc sm (soloEntry rankData) (active_game up (acc_puuid acc)) now
        in if store_ok s \<and> rowScore row \<noteq> prevScoreOf (prev (acc_puuid acc))
           then [historyRowOf row now] else [])"
  using assms
  by (simp add: processPlayer_snd tryPlayer_def Let_def resolvePlayer_history)

lemma processPlayer_history_other:
  assumes "\<forall>a. account_by_riot_id up p = Inr a \<longrightarrow> acc_puuid a \<noteq> u"
  shows "historyOf u (processPlayer up prev now p s) = historyOf u s"
  using assms
  by (auto simp: historyOf_def processPlayer_snd tryPlayer_def Let_def resolvePlayer_history
        historyRowOf_def mkPlayerRow_def split: sum.splits)

lemma processPlayer_calls_resolved:
  assumes "account_by_riot_id up p = Inr acc"
    and "summoner_by_puuid up (acc_puuid acc) = Inr sm"
    and "league_entries up (acc_puuid acc) = Inr rankData"
  shows "matchIdsCallsFor (acc_puuid acc) (processPlayer up prev now p s)
     = matchIdsCallsFor (acc_puuid acc) s @
       (if hasNewGames (prev (acc_puuid acc))
             (mkPlayerRow acc sm (soloEntry rankData) (active_game up (acc_puuid acc)) now)
        then [MatchIdsCall (acc_puuid acc)] else [])"
proof -
  have "matchIdsCallsFor (acc_puuid acc) (processPlayer up prev now p s)
      = matchIdsCallsFor (acc_puuid acc) (snd (tryPlayer up prev now p s))"
    by (simp add: matchIdsCallsFor_def processPlayer_snd)
  then show ?thesis using assms
    by (simp add: tryPlayer_def Let_def resolvePlayer_calls)
qed

lemma processPlayer_calls_other:
  assumes "\<forall>a. account_by_riot_id up p = Inr a \<longrightarrow> acc_puuid a \<noteq> u"
  shows "matchIdsCallsFor u (processPlayer up prev now p s) = matchIdsCallsFor u s"
proof -
  have "matchIdsCallsFor u (processPlayer up prev now p s)
      = matchIdsCallsFor u (snd (tryPlayer up prev now p s))"
    by (simp add: matchIdsCallsFor_def processPlayer_snd)
  then show ?thesis using assms
    by (auto simp: tryPlayer_def Let_def resolvePlayer_calls split: sum.splits)
qed

lemma playersLoop_append:
  "playersLoop up prev now (xs @ ys) s = playersLoop up prev now ys (playersLoop up prev now xs s)"
  by (induction xs arbitrary: s) simp_all

lemma playersLoop_history_other:
  assumes "\<forall>q\<in>set roster. \<forall>a. account_by_riot_id up q = Inr a \<longrightarrow> acc_puuid a \<noteq> u"
  shows "historyOf u (playersLoop up prev now roster s) = historyOf u s"
  using assms
  by (induction roster arbitrary: s) (simp_all add: processPlayer_history_other)

lemma playersLoop_calls_other:
  assumes "\<forall>q\<in>set roster. \<forall>a. account_by_riot_id up q = Inr a \<longrightarrow> acc_puuid a \<noteq> u"
  shows "matchIdsCallsFor u (playersLoop up prev now roster s) = matchIdsCallsFor u s"
  using assms
  by (induction roster arbitrary: s) (simp_all add: processPlayer_calls_other)


section \<open>The cycle: what it adds for one entity\<close>

lemma buildSnapshotOf_state:
  "snd (buildSnapshotOf roster up now s)
     = playersLoop up (loadPrevByPuuid s) now roster (s\<lparr>trackedPuuids := []\<rparr>)"
  by (simp add: buildSnapshotOf_def Let_def)

lemma historyOf_tracked [simp]: "historyOf u (s\<lparr>trackedPuuids := tr\<rparr>) = historyOf u s"
  by (simp add: historyOf_def)

lemma playersLoop_history_of_entity:
  assumes "roster = pre @ p # post"
    and "\<forall>q\<in>set pre \<union> set post. \<forall>a. account_by_riot_id up q = Inr a \<longrightarrow> acc_puuid a \<noteq> acc_puuid acc"
    and "account_by_riot_id up p = Inr acc"
    and "summoner_by_puuid up (acc_puuid acc) = Inr sm"
    and "league_entries up (acc_puuid acc) = Inr rankData"
  shows "historyOf (acc_puuid acc) (playersLoop up prev now roster s)
     = historyOf (acc_puuid acc) s @
       (let row = mkPlayerRow acc sm (soloEntry rankData) (active_game up (acc_puuid acc)) now
        in if store_ok s \<and> rowScore row \<noteq> prevScoreOf (prev (acc_puuid acc))
           then [historyRowOf row now] else [])"
proof -
  let ?u = "acc_puuid acc"
  let ?s1 = "playersLoop up prev now pre s"
  let ?s2 = "processPlayer up prev now p ?s1"
  have pre: "historyOf ?u ?s1 = historyOf ?u s"
    using assms(2) by (intro playersLoop_history_other) blast
  have post: "historyOf ?u (playersLoop up prev now post ?s2) = historyOf ?u ?s2"
    using assms(2) by (intro playersLoop_history_other) blast
  have step: "rank_history ?s2 = rank_history ?s1 @
       (let row = mkPlayerRow acc sm (soloEntry rankData) (active_game up ?u) now
        in if store_ok s \<and> rowScore row \<noteq> prevScoreOf (prev ?u)
           then [historyRowOf row now] else [])"
    using processPlayer_history_resolved [OF assms(3,4,5), of prev now ?s1] by simp
  have "historyOf ?u ?s2 = historyOf ?u ?s1 @
       (let row = mkPlayerRow acc sm (soloEntry rankData) (active_game up ?u) now
        in if store_ok s \<and> rowScore row \<noteq> prevScoreOf (prev ?u)
           then [historyRowOf row now] else [])"
    unfolding historyOf_def step by (simp add: Let_def historyRowOf_def mkPlayerRow_def)
  then show ?thesis
    unfolding assms(1) playersLoop_append using pre post by simp
qed

lemma playersLoop_calls_of_entity:
  assumes "roster = pre @ p # post"
    and "\<forall>q\<in>set pre \<union> set post. \<forall>a. account_by_riot_id up q = Inr a \<longrightarrow> acc_puuid a \<noteq> acc_puuid acc"
    and "account_by_riot_id up p = Inr acc"
    and "summoner_by_puuid up (acc_puuid acc) = Inr sm"
    and "league_entries up (acc_puuid acc) = Inr rankData"
  shows "matchIdsCallsFor (acc_puuid acc) (playersLoop up prev now roster s)
     = matchIdsCallsFor (acc_puuid acc) s @
       (if hasNewGames (prev (acc_puuid acc))
             (mkPlayerRow acc sm (soloEntry rankData) (active_game up (acc_puuid acc)) now)
        then [MatchIdsCall (acc_puuid acc)] else [])"
proof -
  let ?u = "acc_puuid acc"
  let ?s1 = "playersLoop up prev now pre s"
  let ?s2 = "processPlayer up prev now p ?s1"
  have pre: "matchIdsCallsFor ?u ?s1 = matchIdsCallsFor ?u s"
    using assms(2) by (intro playersLoop_calls_other) blast
  have post: "matchIdsCallsFor ?u (playersLoop up prev now post ?s2) = matchIdsCallsFor ?u ?s2"
    using assms(2) by (intro playersLoop_calls_other) blast
  show ?thesis
    unfolding assms(1) playersLoop_append
    using pre post processPlayer_calls_resolved [OF assms(3,4,5), of prev now ?s1] by simp
qed


text \<open>
  The part of the de-duplication that the loop does: the candidate ids are looked up in the
  \<^verbatim>\<open>matches\<close> table in one query before any detail is requested, and the detail of an
  id that is stored is not requested.
\<close>

lemma knownMatchIds_stored:
  "store_ok s \<Longrightarrow> k \<in> fst ` set (matches s) \<Longrightarrow> k \<in> set ks \<Longrightarrow> k \<in> set (knownMatchIds s ks)"
  by (auto simp: knownMatchIds_def select_rows_def orEmpty_def)

lemma storeNewMatches_detail_calls:
  "calls (snd (storeNewMatches up now u s))
     = calls s @ MatchIdsCall u #
       (case match_ids up u of
          Inl e \<Rightarrow> []
        | Inr ks \<Rightarrow> map MatchDetailCall (filter (\<lambda>k. k \<notin> set (knownMatchIds s ks)) ks))"
  by (simp add: storeNewMatches_def Let_def matchLoop_calls split: sum.splits)

lemma stored_match_never_refetched:
  assumes "store_ok s" and "k \<in> fst ` set (matches s)"
  shows "MatchDetailCall k \<notin> set (drop (length (calls s)) (calls (snd (storeNewMatches up now u s))))"
  using knownMatchIds_stored [OF assms]
  by (auto simp: storeNewMatches_detail_calls split: sum.splits)

text \<open>Every iteration sends the identity request of its roster entry, so the cycle sends
  one for each entry, in roster order, whatever fails in between.\<close>

lemma accountCallsOf_frame [simp]:
  "accountCallsOf (request c s) = accountCallsOf s @ (if isAccountCall c then [c] else [])"
  "accountCallsOf (console l s) = accountCallsOf s"
  "accountCallsOf (upsertPlayer row s) = accountCallsOf s"
  "accountCallsOf (writeHistory prev row now s) = accountCallsOf s"
  "accountCallsOf (s\<lparr>trackedPuuids := tr\<rparr>) = accountCallsOf s"
  "accountCallsOf (s\<lparr>building := b\<rparr>) = accountCallsOf s"
  by (simp_all add: accountCallsOf_def)

lemma storeNewMatches_accountCalls [simp]:
  "accountCallsOf (snd (storeNewMatches up now u s)) = accountCallsOf s"
  by (simp add: accountCallsOf_def storeNewMatches_detail_calls filter_empty_conv
      split: sum.splits) auto

lemma resolvePlayer_accountCalls [simp]:
  "accountCallsOf (snd (resolvePlayer up prev now acc s)) = accountCallsOf s"
  by (simp add: resolvePlayer_def Let_def split: sum.splits)

lemma processPlayer_accountCalls:
  "accountCallsOf (processPlayer up prev now p s)
     = accountCallsOf s @ [AccountCall (fst p) (snd p)]"
proof -
  have "accountCallsOf (processPlayer up prev now p s)
      = accountCallsOf (snd (tryPlayer up prev now p s))"
    by (simp add: accountCallsOf_def processPlayer_snd)
  then show ?thesis
    by (simp add: tryPlayer_def Let_def split: sum.splits)
qed

lemma playersLoop_accountCalls:
  "accountCallsOf (playersLoop up prev now roster s)
     = accountCallsOf s @ map (\<lambda>p. AccountCall (fst p) (snd p)) roster"
  by (induction roster arbitrary: s) (simp_all add: processPlayer_accountCalls)

lemma buildSnapshotOf_accountCalls:
  "accountCallsOf (snd (buildSnapshotOf roster up now s))
     = accountCallsOf s @ map (\<lambda>p. AccountCall (fst p) (snd p)) roster"
  by (simp add: buildSnapshotOf_state playersLoop_accountCalls)

text \<open>Facts about the example inputs.\<close>

lemma example_roster:
  "PLAYERS = [] @ (''DDR4 2x16GB 3600'', ''pepi'') # tl PLAYERS"
  by (simp add: PLAYERS_def)

lemma example_others:
  "\<forall>q\<in>set [] \<union> set (tl PLAYERS). \<forall>a. resolveAB q = Inr a \<longrightarrow> acc_puuid a \<noteq> acc_puuid accA"
  by (simp add: PLAYERS_def resolveAB_def accA_def accB_def)

lemma example_resolve:
  "resolveAB (''DDR4 2x16GB 3600'', ''pepi'') = Inr accA"
  by (simp add: resolveAB_def)

lemma example_prev:
  "loadPrevByPuuid dedupState (acc_puuid accA) = Some (storedRow accA)"
  "loadPrevByPuuid emptyState u = None"
  "store_ok dedupState" "store_ok emptyState"
  by (simp_all add: loadPrevByPuuid_def dedupState_def emptyState_def select_rows_def orEmpty_def
      storedRow_def mkPlayerRow_def accA_def accB_def)


section \<open>History gating\<close>

text \<open>
  Claim C3: an entity that the cycle resolves (identity, profile and rank calls answer) and
  that has a previously persisted row gets no history row in that cycle when its new score
  equals the score of the persisted row, and exactly one when the scores differ. The entity
  is the roster entry \<open>p\<close>; no other roster entry resolves to its identifier; the store
  answers.
\<close>

theorem history_gating:
  assumes "store_ok s"
    and "roster = pre @ p # post"
    and "\<forall>q\<in>set pre \<union> set post. \<forall>a. account_by_riot_id up q = Inr a \<longrightarrow> acc_puuid a \<noteq> acc_puuid acc"
    and "account_by_riot_id up p = Inr acc"
    and "summoner_by_puuid up (acc_puuid acc) = Inr sm"
    and "league_entries up (acc_puuid acc) = Inr rankData"
    and "loadPrevByPuuid s (acc_puuid acc) = Some prev"
  shows "historyOf (acc_puuid acc) (snd (buildSnapshotOf roster up now s))
     = historyOf (acc_puuid acc) s @
       (if rowScore (mkPlayerRow acc sm (soloEntry rankData) (active_game up (acc_puuid acc)) now)
           = rowScore prev
        then []
        else [historyRowOf
                (mkPlayerRow acc sm (soloEntry rankData) (active_game up (acc_puuid acc)) now)
                now])"
  unfolding buildSnapshotOf_state
  using playersLoop_history_of_entity [OF assms(2,3,4,5,6), of "loadPrevByPuuid s" now
      "s\<lparr>trackedPuuids := []\<rparr>"] assms(1,7)
  by (simp add: Let_def prevScoreOf_def)

theorem history_gating_witness:
  "store_ok dedupState
   \<and> loadPrevByPuuid dedupState ''puuid-A'' = Some (storedRow accA)
   \<and> historyOf ''puuid-A'' (snd (buildSnapshot dedupUpstream 5000 dedupState))
       = [historyRowOf (mkPlayerRow accA sumAB (Some (goldEntry 50 1)) None 5000) 5000]
   \<and> historyOf ''puuid-A'' (snd (buildSnapshot quietUpstream 5000 dedupState)) = []"
proof -
  have u: "acc_puuid accA = ''puuid-A''" by (simp add: accA_def)
  have h0: "historyOf ''puuid-A'' dedupState = []"
    by (simp add: historyOf_def dedupState_def emptyState_def)
  have changed: "rowScore (mkPlayerRow accA sumAB (Some (goldEntry 50 1)) None 5000)
      \<noteq> rowScore (storedRow accA)"
    by (simp add: rowScore_def mkPlayerRow_def storedRow_def goldEntry_def orNull_def
        tierOrd_def TIER_ORDER_def lpOrZero_def)
  have same: "rowScore (mkPlayerRow accA sumAB (Some (goldEntry 30 0)) None 5000)
      = rowScore (storedRow accA)"
    by (simp add: rowScore_def mkPlayerRow_def storedRow_def)
  have a: "historyOf ''puuid-A'' (snd (buildSnapshot dedupUpstream 5000 dedupState))
       = [historyRowOf (mkPlayerRow accA sumAB (Some (goldEntry 50 1)) None 5000) 5000]"
    using history_gating [of dedupState PLAYERS "[]" "(''DDR4 2x16GB 3600'', ''pepi'')"
        "tl PLAYERS" dedupUpstream accA sumAB "[goldEntry 50 1]" "storedRow accA" 5000]
      example_roster example_others example_resolve example_prev changed
    by (simp add: buildSnapshot_def dedupUpstream_def u h0 soloEntry_def goldEntry_def)
  have b: "historyOf ''puuid-A'' (snd (buildSnapshot quietUpstream 5000 dedupState)) = []"
    using history_gating [of dedupState PLAYERS "[]" "(''DDR4 2x16GB 3600'', ''pepi'')"
        "tl PLAYERS" quietUpstream accA sumAB "[goldEntry 30 0]" "storedRow accA" 5000]
      example_roster example_others example_resolve example_prev same
    by (simp add: buildSnapshot_def quietUpstream_def u h0 soloEntry_def goldEntry_def)
  show ?thesis using a b example_prev u by simp
qed


section \<open>Fetch planning\<close>

lemma mkPlayerRow_counters:
  "pr_wins (mkPlayerRow acc sm solo live now) = Some w \<Longrightarrow>
   pr_losses (mkPlayerRow acc sm solo live now) = Some l \<Longrightarrow>
   hasNewGames prev (mkPlayerRow acc sm solo live now)
     = (case prev of
          None \<Rightarrow> False
        | Some r \<Rightarrow> w + l > numOr (pr_wins r) w + numOr (pr_losses r) l)"
  by (auto simp: hasNewGames_def gamesPlayed_def Let_def numOr_def split: option.splits)

text \<open>
  Claim C4: for an entity that the cycle resolves, the match-id list is requested if and
  only if the new wins plus losses exceed the wins plus losses of the persisted row. With
  equal sums no such request is sent; an entity without a persisted row is compared with
  its own new counters, so none is sent either. The requests for the entity that the
  cycle adds to the log are the one request, or none.
\<close>

theorem match_list_gating:
  assumes "roster = pre @ p # post"
    and "\<forall>q\<in>set pre \<union> set post. \<forall>a. account_by_riot_id up q = Inr a \<longrightarrow> acc_puuid a \<noteq> acc_puuid acc"
    and "account_by_riot_id up p = Inr acc"
    and "summoner_by_puuid up (acc_puuid acc) = Inr sm"
    and "league_entries up (acc_puuid acc) = Inr rankData"
    and "pr_wins (mkPlayerRow acc sm (soloEntry rankData) (active_game up (acc_puuid acc)) now) = Some w"
    and "pr_losses (mkPlayerRow acc sm (soloEntry rankData) (active_game up (acc_puuid acc)) now) = Some l"
  shows "(loadPrevByPuuid s (acc_puuid acc) = Some prev \<and> pr_wins prev = Some pw
            \<and> pr_losses prev = Some pl \<longrightarrow>
          matchIdsCallsFor (acc_puuid acc) (snd (buildSnapshotOf roster up now s))
            = matchIdsCallsFor (acc_puuid acc) s
              @ (if w + l > pw + pl then [MatchIdsCall (acc_puuid acc)] else []))
       \<and> (loadPrevByPuuid s (acc_puuid acc) = None \<longrightarrow>
          matchIdsCallsFor (acc_puuid acc) (snd (buildSnapshotOf roster up now s))
            = matchIdsCallsFor (acc_puuid acc) s)"
  unfolding buildSnapshotOf_state
  using playersLoop_calls_of_entity [OF assms(1,2,3,4,5), of "loadPrevByPuuid s" now
      "s\<lparr>trackedPuuids := []\<rparr>"]
  by (simp add: mkPlayerRow_counters [OF assms(6,7)] numOr_def)

theorem match_list_gating_witness:
  "loadPrevByPuuid dedupState ''puuid-A'' = Some (storedRow accA)
   \<and> pr_wins (storedRow accA) = Some 0 \<and> pr_losses (storedRow accA) = Some 0
   \<and> matchIdsCallsFor ''puuid-A'' (snd (buildSnapshot dedupUpstream 5000 dedupState))
       = [MatchIdsCall ''puuid-A'']
   \<and> matchIdsCallsFor ''puuid-A'' (snd (buildSnapshot quietUpstream 5000 dedupState)) = []
   \<and> loadPrevByPuuid emptyState ''puuid-A'' = None
   \<and> matchIdsCallsFor ''puuid-A'' (snd (buildSnapshot dedupUpstream 5000 emptyState)) = []"
proof -
  have u: "acc_puuid accA = ''puuid-A''" by (simp add: accA_def)
  have c0: "matchIdsCallsFor ''puuid-A'' dedupState = []"
    "matchIdsCallsFor ''puuid-A'' emptyState = []"
    by (simp_all add: matchIdsCallsFor_def dedupState_def emptyState_def)
  have st: "pr_wins (storedRow accA) = Some 0" "pr_losses (storedRow accA) = Some 0"
    by (simp_all add: storedRow_def mkPlayerRow_def goldEntry_def)
  have played: "pr_wins (mkPlayerRow accA sumAB (soloEntry [goldEntry 50 1]) None 5000) = Some 1"
    "pr_losses (mkPlayerRow accA sumAB (soloEntry [goldEntry 50 1]) None 5000) = Some 0"
    by (simp_all add: mkPlayerRow_def soloEntry_def goldEntry_def)
  have quiet: "pr_wins (mkPlayerRow accA sumAB (soloEntry [goldEntry 30 0]) None 5000) = Some 0"
    "pr_losses (mkPlayerRow accA sumAB (soloEntry [goldEntry 30 0]) None 5000) = Some 0"
    by (simp_all add: mkPlayerRow_def soloEntry_def goldEntry_def)
  have a: "matchIdsCallsFor ''puuid-A'' (snd (buildSnapshot dedupUpstream 5000 dedupState))
       = [MatchIdsCall ''puuid-A'']"
    using match_list_gating [of PLAYERS "[]" "(''DDR4 2x16GB 3600'', ''pepi'')"
        "tl PLAYERS" dedupUpstream accA sumAB "[goldEntry 50 1]" 5000 1 0 dedupState
        "storedRow accA" 0 0]
      example_roster example_others example_resolve example_prev st played
    by (simp add: buildSnapshot_def dedupUpstream_def u c0)
  have b: "matchIdsCallsFor ''puuid-A'' (snd (buildSnapshot quietUpstream 5000 dedupState)) = []"
    using match_list_gating [of PLAYERS "[]" "(''DDR4 2x16GB 3600'', ''pepi'')"
        "tl PLAYERS" quietUpstream accA sumAB "[goldEntry 30 0]" 5000 0 0 dedupState
        "storedRow accA" 0 0]
      example_roster example_others example_resolve example_prev st quiet
    by (simp add: buildSnapshot_def quietUpstream_def u c0)
  have c: "matchIdsCallsFor ''puuid-A'' (snd (buildSnapshot dedupUpstream 5000 emptyState)) = []"
    using match_list_gating [of PLAYERS "[]" "(''DDR4 2x16GB 3600'', ''pepi'')"
        "tl PLAYERS" dedupUpstream accA sumAB "[goldEntry 50 1]" 5000 1 0 emptyState
        "storedRow accA" 0 0]
      example_roster example_others example_resolve example_prev played
    by (simp add: buildSnapshot_def dedupUpstream_def u c0)
  show ?thesis using a b c st example_prev u by simp
qed


section \<open>The first observation of an entity\<close>

lemma rowScore_never_placeholder:
  assumes "\<forall>e. solo = Some e \<longrightarrow> (le_tier e = [] \<or> validTier (le_tier e)) \<and> 0 \<le> leaguePoints e"
  shows "rowScore (mkPlayerRow acc sm solo live now) = - 1
       \<or> 0 \<le> rowScore (mkPlayerRow acc sm solo live now)"
proof (cases solo)
  case None
  then show ?thesis by (simp add: rowScore_def mkPlayerRow_def)
next
  case (Some e)
  show ?thesis
  proof (cases "le_tier e = []")
    case True
    then show ?thesis using Some by (simp add: rowScore_def mkPlayerRow_def orNull_def)
  next
    case False
    then have v: "validTier (le_tier e)" and p: "0 \<le> leaguePoints e"
      using assms Some by auto
    have "rowScore (mkPlayerRow acc sm solo live now)
        = rankScore (Some (le_tier e)) (orNull (le_rank e)) (Some (leaguePoints e))"
      using Some False by (simp add: rowScore_def mkPlayerRow_def orNull_def)
    then show ?thesis using rankScore_ranked_nonneg [OF v p] by simp
  qed
qed

text \<open>
  Claim C10: an entity without a persisted row that the cycle resolves always gets a history
  row, also when it resolves as unranked. The score compared against is the placeholder
  \<open>-2\<close>, and the score of the new row is \<open>-1\<close> (unranked) or at least \<open>0\<close>
  (a tier of the table, points not negative), so the two differ.
\<close>

theorem first_observation_recorded:
  assumes "store_ok s"
    and "roster = pre @ p # post"
    and "\<forall>q\<in>set pre \<union> set post. \<forall>a. account_by_riot_id up q = Inr a \<longrightarrow> acc_puuid a \<noteq> acc_puuid acc"
    and "account_by_riot_id up p = Inr acc"
    and "summoner_by_puuid up (acc_puuid acc) = Inr sm"
    and "league_entries up (acc_puuid acc) = Inr rankData"
    and "loadPrevByPuuid s (acc_puuid acc) = None"
    and "\<forall>e. soloEntry rankData = Some e \<longrightarrow>
           (le_tier e = [] \<or> validTier (le_tier e)) \<and> 0 \<le> leaguePoints e"
  shows "prevScoreOf (loadPrevByPuuid s (acc_puuid acc)) = - 2
       \<and> rowScore (mkPlayerRow acc sm (soloEntry rankData) (active_game up (acc_puuid acc)) now)
           \<noteq> - 2
       \<and> historyOf (acc_puuid acc) (snd (buildSnapshotOf roster up now s))
           = historyOf (acc_puuid acc) s
             @ [historyRowOf
                  (mkPlayerRow acc sm (soloEntry rankData) (active_game up (acc_puuid acc)) now)
                  now]"
proof -
  let ?row = "mkPlayerRow acc sm (soloEntry rankData) (active_game up (acc_puuid acc)) now"
  have ne: "rowScore ?row \<noteq> - 2"
    using rowScore_never_placeholder [OF assms(8), of acc sm "active_game up (acc_puuid acc)" now]
    by auto
  have "historyOf (acc_puuid acc) (snd (buildSnapshotOf roster up now s))
      = historyOf (acc_puuid acc) s @ [historyRowOf ?row now]"
    unfolding buildSnapshotOf_state
    using playersLoop_history_of_entity [OF assms(2,3,4,5,6), of "loadPrevByPuuid s" now
        "s\<lparr>trackedPuuids := []\<rparr>"] assms(1,7) ne
    by (simp add: Let_def prevScoreOf_def)
  then show ?thesis using ne assms(7) by (simp add: prevScoreOf_def)
qed

theorem first_observation_recorded_witness:
  "loadPrevByPuuid emptyState ''puuid-A'' = None
   \<and> rowScore (mkPlayerRow accA sumAB None None 5000) = - 1
   \<and> historyOf ''puuid-A'' (snd (buildSnapshot unrankedUpstream 5000 emptyState))
       = [historyRowOf (mkPlayerRow accA sumAB None None 5000) 5000]
   \<and> historyOf ''puuid-A'' (snd (buildSnapshot dedupUpstream 5000 emptyState))
       = [historyRowOf (mkPlayerRow accA sumAB (Some (goldEntry 50 1)) None 5000) 5000]"
proof -
  have u: "acc_puuid accA = ''puuid-A''" by (simp add: accA_def)
  have h0: "historyOf ''puuid-A'' emptyState = []"
    by (simp add: historyOf_def emptyState_def)
  have unranked: "rowScore (mkPlayerRow accA sumAB None None 5000) = - 1"
    by (simp add: rowScore_def mkPlayerRow_def)
  have gold: "validTier ''GOLD''" by (simp add: validTier_def TIER_ORDER_def)
  have a: "historyOf ''puuid-A'' (snd (buildSnapshot unrankedUpstream 5000 emptyState))
       = [historyRowOf (mkPlayerRow accA sumAB None None 5000) 5000]"
    using first_observation_recorded [of emptyState PLAYERS "[]"
        "(''DDR4 2x16GB 3600'', ''pepi'')" "tl PLAYERS" unrankedUpstream accA sumAB "[]" 5000]
      example_roster example_others example_resolve example_prev
    by (simp add: buildSnapshot_def unrankedUpstream_def u h0 soloEntry_def)
  have b: "historyOf ''puuid-A'' (snd (buildSnapshot dedupUpstream 5000 emptyState))
       = [historyRowOf (mkPlayerRow accA sumAB (Some (goldEntry 50 1)) None 5000) 5000]"
    using first_observation_recorded [of emptyState PLAYERS "[]"
        "(''DDR4 2x16GB 3600'', ''pepi'')" "tl PLAYERS" dedupUpstream accA sumAB
        "[goldEntry 50 1]" 5000]
      example_roster example_others example_resolve example_prev gold
    by (simp add: buildSnapshot_def dedupUpstream_def u h0 soloEntry_def goldEntry_def)
  show ?thesis using a b unranked example_prev by simp
qed


section \<open>The Build Coordinator\<close>

lemma readPlayersFromDB_console [simp]:
  "readPlayersFromDB (console l s) = readPlayersFromDB s"
  by (simp add: readPlayersFromDB_def select_rows_def)

lemma readPlayersFromDB_empty:
  "readPlayersFromDB s = [] \<longleftrightarrow> \<not> store_ok s \<or> players s = []"
  by (simp add: readPlayersFromDB_def select_rows_def Let_def)

lemma handler_running:
  "entersRunning ev clock req s \<Longrightarrow> handler build ev clock req s = runCycle build clock s"
  by (simp add: entersRunning_def handler_def)

lemma buildSnapshotOf_resolves:
  "fst (buildSnapshotOf roster up now s) = Inr (readPlayersFromDB (snd (buildSnapshotOf roster up now s)))"
  by (simp add: buildSnapshotOf_def Let_def)

text \<open>
  Claim C8, as stated, promises a response composed from the persisted state whenever an
  entity row is persisted. The fallback reads through \<^verbatim>\<open>readPlayersFromDB\<close>, which
  answers with the empty list when the store reports an error: with two rows persisted and
  a store that does not answer, a rejected cycle ends in the hard error.
\<close>

theorem fatal_failure_store_down_counterexample:
  "players downState \<noteq> []
   \<and> entersRunning exampleEnv 5000 forcedReq downState
   \<and> failingBuild (console LogStart (downState\<lparr>building := True\<rparr>))
       = (Inl (Error ''fetch failed''), console LogStart (downState\<lparr>building := True\<rparr>))
   \<and> players (console LogStart (downState\<lparr>building := True\<rparr>)) \<noteq> []
   \<and> fst (handler failingBuild exampleEnv 5000 forcedReq downState)
       = (500, ErrorBody ''fetch failed'')"
  by (simp add: downState_def dedupState_def emptyState_def entersRunning_def exampleEnv_def
      forcedReq_def unset_def freshAnswer_def handler_def runCycle_def failingBuild_def
      Let_def readPlayersFromDB_empty message_def)

text \<open>
  Claim C8, amended: when the cycle rejects, the response is composed from the rows the
  fallback read returns, marked cached and stale, whenever the store answers that read and
  holds at least one entity row; the hard error with the message of the rejection is
  returned exactly when the read returns no row (no entity row persisted, or the store
  does not answer).
\<close>

theorem fatal_failure_fallback:
  assumes "entersRunning ev clock req s"
    and "build (console LogStart (s\<lparr>building := True\<rparr>)) = (Inl e, s')"
  shows "fst (handler build ev clock req s)
     = (if store_ok s' \<and> players s' \<noteq> []
        then (200, SnapshotBody (readPlayersFromDB s') clock True True)
        else (500, ErrorBody (message e)))"
  using assms(2)
  by (simp add: handler_running [OF assms(1)] runCycle_def Let_def readPlayersFromDB_empty)

theorem fatal_failure_fallback_witness:
  "entersRunning exampleEnv 5000 forcedReq dedupState
   \<and> fst (handler failingBuild exampleEnv 5000 forcedReq dedupState)
       = (200, SnapshotBody
                 (readPlayersFromDB (console LogStart (dedupState\<lparr>building := True\<rparr>)))
                 5000 True True)
   \<and> entersRunning exampleEnv 5000 forcedReq emptyState
   \<and> fst (handler failingBuild exampleEnv 5000 forcedReq emptyState)
       = (500, ErrorBody ''fetch failed'')"
proof -
  have r1: "entersRunning exampleEnv 5000 forcedReq dedupState"
    and r2: "entersRunning exampleEnv 5000 forcedReq emptyState"
    by (simp_all add: entersRunning_def exampleEnv_def forcedReq_def unset_def freshAnswer_def
        dedupState_def emptyState_def)
  have a: "fst (handler failingBuild exampleEnv 5000 forcedReq dedupState)
       = (200, SnapshotBody
                 (readPlayersFromDB (console LogStart (dedupState\<lparr>building := True\<rparr>)))
                 5000 True True)"
    using fatal_failure_fallback [OF r1, of failingBuild "Error ''fetch failed''"
        "console LogStart (dedupState\<lparr>building := True\<rparr>)"]
    by (simp add: failingBuild_def dedupState_def emptyState_def)
  have b: "fst (handler failingBuild exampleEnv 5000 forcedReq emptyState)
       = (500, ErrorBody ''fetch failed'')"
    using fatal_failure_fallback [OF r2, of failingBuild "Error ''fetch failed''"
        "console LogStart (emptyState\<lparr>building := True\<rparr>)"]
    by (simp add: failingBuild_def emptyState_def message_def)
  show ?thesis using r1 r2 a b by simp
qed

lemma handler_locked:
  "building s \<Longrightarrow> snd (handler build ev clock req s) = s"
  by (simp add: handler_def split: option.splits)

lemma runCycle_flag:
  "building (snd (runCycle build clock s)) = False"
proof (cases "build (console LogStart (s\<lparr>building := True\<rparr>))")
  case (Pair outcome s')
  then show ?thesis by (cases outcome) (simp_all add: runCycle_def Let_def)
qed

lemma runCycle_cong_held:
  assumes "\<forall>t. building t \<longrightarrow> build' t = build t"
  shows "runCycle build' clock s = runCycle build clock s"
proof -
  have "building (console LogStart (s\<lparr>building := True\<rparr>))" by simp
  then have "build' (console LogStart (s\<lparr>building := True\<rparr>))
      = build (console LogStart (s\<lparr>building := True\<rparr>))"
    using assms by blast
  then show ?thesis by (simp add: runCycle_def)
qed

text \<open>
  Claim C9: the build lock is never left held. \<^verbatim>\<open>runCycle\<close> is the code from
  \<^verbatim>\<open>building = true\<close> to the end of \<^verbatim>\<open>finally\<close>. From every state, and whether
  the cycle resolves or rejects with any error and whatever state it leaves, the flag is
  \<open>False\<close> afterwards; a trigger that enters the running state runs exactly this code.
  The lock is taken before the cycle starts: the cycle is only ever started on a state with
  the flag set, so its behaviour on other states is irrelevant. A trigger that finds the
  flag set changes nothing. The cycle of \<^verbatim>\<open>src/api/snapshot.js\<close> over any roster runs to
  its end: it resolves, the response is the fresh snapshot, and the identity request of
  every roster entry has been sent, in roster order, whatever failed for single entities.
\<close>

theorem build_lock_released:
  "building (snd (runCycle build clock s)) = False
   \<and> (entersRunning ev clock req s \<longrightarrow>
        handler build ev clock req s = runCycle build clock s
        \<and> building (snd (handler build ev clock req s)) = False)
   \<and> ((\<forall>t. building t \<longrightarrow> build' t = build t) \<longrightarrow>
        runCycle build' clock s = runCycle build clock s)
   \<and> (building s \<longrightarrow> snd (handler build ev clock req s) = s)
   \<and> fst (runCycle (buildSnapshotOf roster up now) clock s)
       = (200, SnapshotBody
                 (readPlayersFromDB
                    (snd (buildSnapshotOf roster up now (console LogStart (s\<lparr>building := True\<rparr>)))))
                 clock False False)
   \<and> accountCallsOf (snd (runCycle (buildSnapshotOf roster up now) clock s))
       = accountCallsOf s @ map (\<lambda>p. AccountCall (fst p) (snd p)) roster"
proof -
  let ?held = "console LogStart (s\<lparr>building := True\<rparr>)"
  have flag: "building (snd (runCycle build clock s)) = False" by (rule runCycle_flag)
  have run: "entersRunning ev clock req s \<longrightarrow>
        handler build ev clock req s = runCycle build clock s
        \<and> building (snd (handler build ev clock req s)) = False"
    using flag by (simp add: handler_running)
  have cong: "(\<forall>t. building t \<longrightarrow> build' t = build t) \<longrightarrow>
        runCycle build' clock s = runCycle build clock s"
    using runCycle_cong_held [of build' build clock s] by blast
  have wait: "building s \<longrightarrow> snd (handler build ev clock req s) = s"
    by (simp add: handler_locked)
  obtain s' where b: "buildSnapshotOf roster up now ?held = (Inr (readPlayersFromDB s'), s')"
    by (simp add: buildSnapshotOf_def Let_def)
  have resp: "fst (runCycle (buildSnapshotOf roster up now) clock s)
       = (200, SnapshotBody (readPlayersFromDB (snd (buildSnapshotOf roster up now ?held)))
                 clock False False)"
    using b by (simp add: runCycle_def)
  have "snd (runCycle (buildSnapshotOf roster up now) clock s)
      = (snd (buildSnapshotOf roster up now ?held))\<lparr>building := False\<rparr>"
    using b by (simp add: runCycle_def)
  then have all: "accountCallsOf (snd (runCycle (buildSnapshotOf roster up now) clock s))
       = accountCallsOf s @ map (\<lambda>p. AccountCall (fst p) (snd p)) roster"
    by (simp add: buildSnapshotOf_accountCalls)
  show ?thesis using flag run cong wait resp all by blast
qed

theorem build_lock_released_witness:
  "entersRunning exampleEnv 5000 forcedReq dedupState
   \<and> building (snd (handler (buildSnapshot dedupUpstream 5000) exampleEnv 5000 forcedReq
                       dedupState)) = False
   \<and> building (snd (handler failingBuild exampleEnv 5000 forcedReq dedupState)) = False
   \<and> runCycle (\<lambda>t. if building t then failingBuild t else (Inr [], t)) 5000 dedupState
       = runCycle failingBuild 5000 dedupState
   \<and> building (dedupState\<lparr>building := True\<rparr>)
   \<and> snd (handler failingBuild exampleEnv 5000 forcedReq (dedupState\<lparr>building := True\<rparr>))
       = dedupState\<lparr>building := True\<rparr>
   \<and> accountCallsOf (snd (runCycle (buildSnapshot listDownUpstream 5000) 5000 dedupState))
       = map (\<lambda>p. AccountCall (fst p) (snd p)) PLAYERS"
proof -
  have r1: "entersRunning exampleEnv 5000 forcedReq dedupState"
    by (simp add: entersRunning_def exampleEnv_def forcedReq_def unset_def freshAnswer_def
        dedupState_def emptyState_def)
  have c0: "accountCallsOf dedupState = []"
    by (simp add: accountCallsOf_def dedupState_def emptyState_def)
  have a: "building (snd (handler (buildSnapshot dedupUpstream 5000) exampleEnv 5000 forcedReq
                       dedupState)) = False"
    using r1 build_lock_released [where build = "buildSnapshot dedupUpstream 5000"
        and ev = exampleEnv and clock = 5000 and req = forcedReq and s = dedupState]
    by blast
  have b: "building (snd (handler failingBuild exampleEnv 5000 forcedReq dedupState)) = False"
    using r1 build_lock_released [where build = failingBuild
        and ev = exampleEnv and clock = 5000 and req = forcedReq and s = dedupState]
    by blast
  have c: "runCycle (\<lambda>t. if building t then failingBuild t else (Inr [], t)) 5000 dedupState
       = runCycle failingBuild 5000 dedupState"
    using build_lock_released [where build = failingBuild and clock = 5000 and s = dedupState
        and build' = "\<lambda>t. if building t then failingBuild t else (Inr [], t)"]
    by simp
  have d: "snd (handler failingBuild exampleEnv 5000 forcedReq (dedupState\<lparr>building := True\<rparr>))
       = dedupState\<lparr>building := True\<rparr>"
    using build_lock_released [where build = failingBuild and ev = exampleEnv
        and clock = 5000 and req = forcedReq and s = "dedupState\<lparr>building := True\<rparr>"]
    by simp
  have e: "accountCallsOf (snd (runCycle (buildSnapshot listDownUpstream 5000) 5000 dedupState))
       = map (\<lambda>p. AccountCall (fst p) (snd p)) PLAYERS"
    using build_lock_released [where roster = PLAYERS and up = listDownUpstream
        and now = 5000 and clock = 5000 and s = dedupState] c0
    by (simp add: buildSnapshot_def)
  show ?thesis using r1 a b c d e by simp
qed


section \<open>Milestone detection\<close>

text \<open>
  What \<^verbatim>\<open>detectMilestones\<close> emits: nothing on a first observation or an unchanged
  score; otherwise one \<open>Promoted\<close> when the tier bucket rises and the new score is
  greater than \<open>0\<close>, one \<open>Demoted\<close> when it falls and the old score is greater than
  \<open>0\<close>. The examples of the spec: Gold II to Gold I gives no event, Gold I to Platinum IV
  one promotion.
\<close>

lemma detectMilestones_events:
  "milestones (detectMilestones u (Some prev) new row now s)
     = milestones s @
       (if \<not> store_ok s \<or> prev = new then []
        else if new div 10000 > prev div 10000 \<and> new > 0
          then [Promoted u (getTierName prev) (toTier row) now]
        else if new div 10000 < prev div 10000 \<and> prev > 0
          then [Demoted u (getTierName prev) (toTier row) now]
        else [])"
  by (simp add: detectMilestones_def Let_def)

lemma detectMilestones_first_observation:
  "detectMilestones u None new row now s = s"
  by (simp add: detectMilestones_def)

lemma exampleScores:
  "rankScore (Some ''GOLD'') (Some ''II'') (Some 40) = 32040"
  "rankScore (Some ''GOLD'') (Some ''I'') (Some 10) = 33010"
  "rankScore (Some ''PLATINUM'') (Some ''IV'') (Some 0) = 40000"
  "rankScore (Some ''IRON'') (Some ''IV'') (Some 0) = 0"
  "rankScore None None None = - 1"
  by (simp_all add: tierOrd_def TIER_ORDER_def rankOrd_def RANK_ORDER_def lpOrZero_def)

lemma detectMilestones_spec_examples:
  assumes "store_ok s"
  shows "milestones (detectMilestones u (Some 32040) 33010 row now s) = milestones s"
    and "milestones (detectMilestones u (Some 33010) 40000 row now s)
           = milestones s @ [Promoted u ''GOLD I'' (toTier row) now]"
    and "milestones (detectMilestones u (Some 40000) 33010 row now s)
           = milestones s @ [Demoted u ''PLATINUM IV'' (toTier row) now]"
  using assms
  by (simp_all add: detectMilestones_events getTierName_def keyOf_def TIER_ORDER_def
      RANK_ORDER_def Let_def)

text \<open>
  Claim C5 at the score \<open>0\<close>. Iron IV with 0 points is a ranked score (\<open>0\<close>, where the
  unranked sentinel is \<open>-1\<close> and \<^verbatim>\<open>getTierName\<close> prints \<^verbatim>\<open>Unranked\<close> only below
  \<open>0\<close>), and its bucket \<open>0\<close> is above the bucket \<open>-1\<close> of the sentinel. The guards
  \<^verbatim>\<open>newScore > 0\<close> and \<^verbatim>\<open>prevScore > 0\<close> leave it out: an entity going from unranked
  to Iron IV with 0 points gets no promotion, one going from there to unranked no demotion.
\<close>

theorem detectMilestones_score_zero_not_ranked:
  "rankScore None None None = - 1
   \<and> rankScore (Some ''IRON'') (Some ''IV'') (Some 0) = 0
   \<and> (- 1 :: int) div 10000 < 0 div 10000
   \<and> milestones (detectMilestones u (Some (- 1)) 0 row now s) = milestones s
   \<and> milestones (detectMilestones u (Some 0) (- 1) row now s) = milestones s"
  by (simp add: detectMilestones_events tierOrd_def TIER_ORDER_def rankOrd_def RANK_ORDER_def
      lpOrZero_def)

text \<open>
  What \<^verbatim>\<open>detectSurpassedMilestones\<close> emits: one event for each ordered pair of distinct
  keys of the new scores that satisfies the test of the source, in loop order. The example
  of the spec: A from 100 to 200 against B at 150 gives the one event for (A, B).
\<close>

lemma surpassedEvents_iff:
  "Surpassed a b x y t \<in> set (surpassedEvents prevScores newScores now)
     \<longleftrightarrow> a \<in> fst ` set newScores \<and> b \<in> fst ` set newScores \<and> a \<noteq> b
         \<and> surpasses prevScores newScores a b
         \<and> x = numOr (map_of newScores a) (- 1) \<and> y = numOr (map_of newScores b) (- 1)
         \<and> t = now"
  by (auto simp: surpassedEvents_def Let_def)

lemma fold_insertMilestone:
  "store_ok (fold insertMilestone ms s) = store_ok s"
  "milestones (fold insertMilestone ms s) = milestones s @ (if store_ok s then ms else [])"
  by (induction ms arbitrary: s; simp)+

lemma detectSurpassedMilestones_events:
  "milestones (detectSurpassedMilestones prevScores now s)
     = milestones s @
       (if store_ok s then surpassedEvents prevScores (loadNewScores s) now else [])"
  by (simp add: detectSurpassedMilestones_def fold_insertMilestone)

lemma surpassed_spec_example:
  "surpassedEvents (map_of [(''A'', 100), (''B'', 150)]) [(''A'', 200), (''B'', 150)] now
     = [Surpassed ''A'' ''B'' 200 150 now]"
  by (simp add: surpassedEvents_def surpasses_def numOr_def Let_def)

lemma detectMilestones_store_ok [simp]:
  "store_ok (detectMilestones u prevScore new row now s) = store_ok s"
  by (simp add: detectMilestones_def Let_def split: option.splits)

lemma fetchMatch_ms_store_ok [simp]:
  "store_ok (fetchMatch_ms up now k s) = store_ok s"
  by (simp add: fetchMatch_ms_def Let_def split: sum.splits)

lemma matchLoop_ms_store_ok [simp]:
  "store_ok (matchLoop_ms up now known ks s) = store_ok s"
  by (induction ks arbitrary: s) simp_all

lemma processPlayer_ms_store_ok [simp]:
  "store_ok (processPlayer_ms up prevScores now p s) = store_ok s"
  by (simp add: processPlayer_ms_def tryPlayer_ms_def reconcile_ms_def Let_def split: sum.splits)

lemma playersLoop_ms_store_ok [simp]:
  "store_ok (playersLoop_ms up prevScores now roster s) = store_ok s"
  by (induction roster arbitrary: s) simp_all

text \<open>The overtake pass runs once, after the loop, on the scores loaded before the loop.\<close>

lemma buildSnapshotOf_ms_overtakes:
  "milestones (snd (buildSnapshotOf_ms roster up now s))
     = milestones (playersLoop_ms up (loadPrevScores s) now roster (s\<lparr>results := []\<rparr>))
       @ (if store_ok s
          then surpassedEvents (loadPrevScores s)
                 (loadNewScores (playersLoop_ms up (loadPrevScores s) now roster
                                    (s\<lparr>results := []\<rparr>))) now
          else [])"
  by (simp add: buildSnapshotOf_ms_def Let_def detectSurpassedMilestones_events)

text \<open>
  Claim C6 at the score \<open>0\<close>. Both entities were unranked before the cycle (\<open>-1 \<le> -1\<close>);
  after it the first is in Iron IV with 0 points, a ranked score \<open>0\<close> above the \<open>-1\<close> of
  the second. The guard \<^verbatim>\<open>newA > 0\<close> leaves the pair out: no event is emitted.
\<close>

theorem detectSurpassedMilestones_score_zero_not_ranked:
  "loadPrevScores unrankedState ''puuid-A'' = Some (- 1)
   \<and> loadPrevScores unrankedState ''puuid-B'' = Some (- 1)
   \<and> loadNewScores placedState = [(''puuid-A'', 0), (''puuid-B'', - 1)]
   \<and> rankScore (Some ''IRON'') (Some ''IV'') (Some 0) = 0
   \<and> milestones (detectSurpassedMilestones (loadPrevScores unrankedState) 5000 placedState)
       = []"
  by (simp add: detectSurpassedMilestones_events surpassedEvents_def surpasses_def numOr_def
      Let_def loadPrevScores_def loadNewScores_def unrankedState_def placedState_def
      emptyState_def select_rows_def orEmpty_def mkPlayerRow_def rowScore_def ironEntry_def
      orNull_def accA_def accB_def tierOrd_def TIER_ORDER_def rankOrd_def RANK_ORDER_def
      lpOrZero_def)

text \<open>The same through a whole cycle of the milestone variant: no promotion and no overtake
  is logged for the placement.\<close>

lemma placement_cycle_emits_nothing:
  "map (\<lambda>kv. rowScore (snd kv)) (players (snd (buildSnapshot_ms placementUpstream 5000 unrankedState)))
     = [0, - 1]
   \<and> milestones (snd (buildSnapshot_ms placementUpstream 5000 unrankedState)) = []"
  by code_simp


section \<open>Match de-duplication\<close>

text \<open>
  Claim C2 on a shared match. Both roster entries played the match \<^verbatim>\<open>EUW1_1\<close> since
  the last cycle and it is not stored yet. The detail is requested once, while the first
  entry is processed; \<^verbatim>\<open>trackedPuuids\<close> then holds the first entry only, so only its
  participation row is written. When the second entry is processed the match is stored and
  is skipped. After the cycle both are tracked and the match is stored, and there is one
  participation row, not two.
\<close>

theorem shared_match_second_row_missing:
  "map part_puuid (participants sharedMatch) = [''puuid-A'', ''puuid-B'']
   \<and> trackedPuuids (snd (buildSnapshot dedupUpstream 5000 dedupState)) = [''puuid-B'', ''puuid-A'']
   \<and> map fst (matches (snd (buildSnapshot dedupUpstream 5000 dedupState))) = [''EUW1_1'']
   \<and> filter (\<lambda>c. c = MatchDetailCall ''EUW1_1'')
        (calls (snd (buildSnapshot dedupUpstream 5000 dedupState))) = [MatchDetailCall ''EUW1_1'']
   \<and> map fst (player_matches (snd (buildSnapshot dedupUpstream 5000 dedupState)))
       = [(''puuid-A'', ''EUW1_1'')]"
  by code_simp

text \<open>The milestone variant takes the tracked identifiers from \<^verbatim>\<open>results\<close>, which
  grows in the same way, and ends with the same single row.\<close>

lemma shared_match_second_row_missing_ms:
  "map fst (player_matches (snd (buildSnapshot_ms dedupUpstream 5000 dedupState)))
       = [(''puuid-A'', ''EUW1_1'')]"
  by code_simp


section \<open>Failure of one entity\<close>

text \<open>
  In \<^verbatim>\<open>src/api/snapshot.js\<close> a failure of the identity, profile or rank lookup is
  caught at the entity boundary and logged with the name, the qualifier and the error, and
  that iteration has written nothing to the store.
\<close>

lemma tryPlayer_lookup_failure:
  assumes "lookupFailure up p = Some err"
  shows "fst (tryPlayer up prev now p s) = Inl err"
    and "store_ok (snd (tryPlayer up prev now p s)) = store_ok s"
    and "players (snd (tryPlayer up prev now p s)) = players s"
    and "rank_history (snd (tryPlayer up prev now p s)) = rank_history s"
    and "matches (snd (tryPlayer up prev now p s)) = matches s"
    and "player_matches (snd (tryPlayer up prev now p s)) = player_matches s"
    and "milestones (snd (tryPlayer up prev now p s)) = milestones s"
    and "logs (snd (tryPlayer up prev now p s)) = logs s"
  using assms
  by (auto simp: lookupFailure_def tryPlayer_def resolvePlayer_def Let_def split: sum.splits)

lemma lookup_failure_writes_nothing:
  assumes "lookupFailure up p = Some err"
  shows "fst (tryPlayer up prev now p s) = Inl err
       \<and> logs (processPlayer up prev now p s) = logs s @ [WarnPlayer (fst p) (snd p) err]
       \<and> store_ok (processPlayer up prev now p s) = store_ok s
       \<and> players (processPlayer up prev now p s) = players s
       \<and> rank_history (processPlayer up prev now p s) = rank_history s
       \<and> matches (processPlayer up prev now p s) = matches s
       \<and> player_matches (processPlayer up prev now p s) = player_matches s
       \<and> milestones (processPlayer up prev now p s) = milestones s"
proof -
  obtain s' where t: "tryPlayer up prev now p s = (Inl err, s')"
    using tryPlayer_lookup_failure(1) [OF assms, of prev now s]
    by (cases "tryPlayer up prev now p s") auto
  have l: "logs (processPlayer up prev now p s) = logs s @ [WarnPlayer (fst p) (snd p) err]"
    using tryPlayer_lookup_failure(8) [OF assms, of prev now s] t
    by (simp add: processPlayer_def)
  show ?thesis
    using l tryPlayer_lookup_failure [OF assms, of prev now s]
    by (simp add: processPlayer_snd)
qed

text \<open>
  Claim C7 on a failure of the fourth required call. Both entities have played a new game
  and the match-id list call is refused. The list is requested after the entity row and the
  history row have been written: the failure of each entity is caught at the entity
  boundary and logged, the cycle goes on, and after the cycle the persisted row of each
  failed entity has been replaced and a history row appended for it, where the claim leaves
  the persisted state of a failed entity unchanged by the cycle. The counters of the new
  rows already include the new game, so the next cycle sees no increase and does not ask for
  the list.

  A second input: the profile call of the first entity is refused, after its identifier has
  been added to \<^verbatim>\<open>trackedPuuids\<close>. Its own iteration writes nothing, and the iteration
  of the second entity, which stores the shared match, writes a participation row for the
  failed entity as well.
\<close>

theorem entity_failure_changes_persisted_state:
  "fst (tryPlayer listDownUpstream (loadPrevByPuuid dedupState) 5000
          (''DDR4 2x16GB 3600'', ''pepi'') (dedupState\<lparr>trackedPuuids := []\<rparr>))
       = Inl (Error ''HTTP 429'')
   \<and> map (\<lambda>kv. (fst kv, pr_lp (snd kv), pr_wins (snd kv))) (players dedupState)
       = [(''puuid-A'', Some 30, Some 0), (''puuid-B'', Some 30, Some 0)]
   \<and> map (\<lambda>kv. (fst kv, pr_lp (snd kv), pr_wins (snd kv)))
        (players (snd (buildSnapshot listDownUpstream 5000 dedupState)))
       = [(''puuid-A'', Some 50, Some 1), (''puuid-B'', Some 50, Some 1)]
   \<and> rank_history dedupState = []
   \<and> map (\<lambda>r. (hr_puuid r, hr_score r))
        (rank_history (snd (buildSnapshot listDownUpstream 5000 dedupState)))
       = [(''puuid-A'', 30050), (''puuid-B'', 30050)]
   \<and> take 4 (logs (snd (buildSnapshot listDownUpstream 5000 dedupState)))
       = [LogRankChanged ''DDR4 2x16GB 3600'' 30030 30050,
          WarnPlayer ''DDR4 2x16GB 3600'' ''pepi'' (Error ''HTTP 429''),
          LogRankChanged ''LaDragonaTragona'' 30030 30050,
          WarnPlayer ''LaDragonaTragona'' ''AWA'' (Error ''HTTP 429'')]
   \<and> lookupFailure profileDownUpstream (''DDR4 2x16GB 3600'', ''pepi'')
       = Some (Error ''HTTP 503'')
   \<and> player_matches dedupState = []
   \<and> map fst (player_matches (snd (buildSnapshot profileDownUpstream 5000 dedupState)))
       = [(''puuid-A'', ''EUW1_1''), (''puuid-B'', ''EUW1_1'')]"
  by code_simp

text \<open>
  The milestone variant requests the match-id list before its first write, so there every
  failure of a required call leaves the store as it was; its \<^verbatim>\<open>catch\<close> also pushes
  the placeholder with name and qualifier to \<^verbatim>\<open>results\<close>.
\<close>

lemma tryPlayer_ms_failure:
  assumes "fst (tryPlayer_ms up prevScores now p s) = Inl err"
  shows "store_ok (snd (tryPlayer_ms up prevScores now p s)) = store_ok s"
    and "players (snd (tryPlayer_ms up prevScores now p s)) = players s"
    and "rank_history (snd (tryPlayer_ms up prevScores now p s)) = rank_history s"
    and "matches (snd (tryPlayer_ms up prevScores now p s)) = matches s"
    and "player_matches (snd (tryPlayer_ms up prevScores now p s)) = player_matches s"
    and "milestones (snd (tryPlayer_ms up prevScores now p s)) = milestones s"
    and "logs (snd (tryPlayer_ms up prevScores now p s)) = logs s"
    and "results (snd (tryPlayer_ms up prevScores now p s)) = results s"
  using assms
  by (auto simp: tryPlayer_ms_def Let_def split: sum.splits)

lemma processPlayer_ms_failure_isolated:
  assumes "fst (tryPlayer_ms up prevScores now p s) = Inl err"
  shows "results (processPlayer_ms up prevScores now p s) = results s @ [Placeholder (fst p) (snd p)]
       \<and> logs (processPlayer_ms up prevScores now p s) = logs s @ [WarnPlayer (fst p) (snd p) err]
       \<and> store_ok (processPlayer_ms up prevScores now p s) = store_ok s
       \<and> players (processPlayer_ms up prevScores now p s) = players s
       \<and> rank_history (processPlayer_ms up prevScores now p s) = rank_history s
       \<and> matches (processPlayer_ms up prevScores now p s) = matches s
       \<and> player_matches (processPlayer_ms up prevScores now p s) = player_matches s
       \<and> milestones (processPlayer_ms up prevScores now p s) = milestones s"
proof -
  obtain s' where t: "tryPlayer_ms up prevScores now p s = (Inl err, s')"
    using assms by (cases "tryPlayer_ms up prevScores now p s") auto
  show ?thesis
    using tryPlayer_ms_failure [OF assms] t
    by (simp add: processPlayer_ms_def Let_def)
qed

end
